theory Spec2Isabelle
  imports Complex_Main "HOL-Library.AList"
begin

section \<open>Numbers and times\<close>

text \<open>
  The services compute with JavaScript numbers. Amounts, weights and times are modelled
  as (finite) reals; rounding of IEEE doubles and the sign of zero are not modelled. The
  one division of the services whose divisor can be zero
  (\<open>totalRemittances / totalCollections\<close>) yields \<open>NaN\<close> or an infinity in JavaScript,
  so values that may come from it are of the type \<open>jsnum\<close>, with the arithmetic and the
  comparisons of JavaScript on the non-finite values. Distances are computed over the
  reals as well: the rounding of doubles in the trigonometric functions is not modelled.

  A \<open>Date\<close> is its \<open>getTime()\<close>: an integer number of milliseconds.
\<close>

datatype jsnum = Num real | NaN | PInf | NInf

type_synonym time = int

definition js_div :: "real \<Rightarrow> real \<Rightarrow> jsnum" where
  "js_div a b =
     (if b \<noteq> 0 then Num (a / b)
      else if a = 0 then NaN
      else if 0 < a then PInf
      else NInf)"

fun js_neg :: "jsnum \<Rightarrow> jsnum" where
  "js_neg (Num a) = Num (- a)"
| "js_neg NaN = NaN"
| "js_neg PInf = NInf"
| "js_neg NInf = PInf"

fun js_add :: "jsnum \<Rightarrow> jsnum \<Rightarrow> jsnum" where
  "js_add (Num a) (Num b) = Num (a + b)"
| "js_add NaN y = NaN"
| "js_add x NaN = NaN"
| "js_add PInf NInf = NaN"
| "js_add NInf PInf = NaN"
| "js_add PInf y = PInf"
| "js_add NInf y = NInf"
| "js_add x PInf = PInf"
| "js_add x NInf = NInf"

definition js_sub :: "jsnum \<Rightarrow> jsnum \<Rightarrow> jsnum" where
  "js_sub x y = js_add x (js_neg y)"

fun js_mul :: "jsnum \<Rightarrow> jsnum \<Rightarrow> jsnum" where
  "js_mul (Num a) (Num b) = Num (a * b)"
| "js_mul NaN y = NaN"
| "js_mul x NaN = NaN"
| "js_mul (Num a) PInf = (if a = 0 then NaN else if 0 < a then PInf else NInf)"
| "js_mul (Num a) NInf = (if a = 0 then NaN else if 0 < a then NInf else PInf)"
| "js_mul PInf (Num b) = (if b = 0 then NaN else if 0 < b then PInf else NInf)"
| "js_mul NInf (Num b) = (if b = 0 then NaN else if 0 < b then NInf else PInf)"
| "js_mul PInf PInf = PInf"
| "js_mul NInf NInf = PInf"
| "js_mul PInf NInf = NInf"
| "js_mul NInf PInf = NInf"

text \<open>\<open>Math.min(1, x)\<close>.\<close>

fun js_min1 :: "jsnum \<Rightarrow> jsnum" where
  "js_min1 (Num a) = Num (min 1 a)"
| "js_min1 NaN = NaN"
| "js_min1 PInf = Num 1"
| "js_min1 NInf = NInf"

text \<open>\<open>x || 0\<close>: \<open>NaN\<close> and \<open>0\<close> are falsy.\<close>

fun js_or0 :: "jsnum \<Rightarrow> jsnum" where
  "js_or0 NaN = Num 0"
| "js_or0 x = x"

text \<open>\<open>x < c\<close> and \<open>x >= c\<close> for a finite \<open>c\<close>: both are false on \<open>NaN\<close>.\<close>

fun js_lt :: "jsnum \<Rightarrow> real \<Rightarrow> bool" where
  "js_lt (Num a) c = (a < c)"
| "js_lt NaN c = False"
| "js_lt PInf c = False"
| "js_lt NInf c = True"

fun js_ge :: "jsnum \<Rightarrow> real \<Rightarrow> bool" where
  "js_ge (Num a) c = (c \<le> a)"
| "js_ge NaN c = False"
| "js_ge PInf c = True"
| "js_ge NInf c = False"

text \<open>\<open>x || d\<close> on a nullable finite number: \<open>null\<close> and \<open>0\<close> are falsy.\<close>

definition num_or :: "real option \<Rightarrow> real \<Rightarrow> real" where
  "num_or x d = (case x of None \<Rightarrow> d | Some v \<Rightarrow> if v = 0 then d else v)"

section \<open>Data model (the Prisma schema)\<close>

type_synonym ident = nat

datatype UserRole = ADMIN | CUSTOMER | DELIVERY_AGENT | SUPPORT

datatype OrderStatus =
  PENDING | CONFIRMED | PROCESSING | READY_FOR_DELIVERY | IN_DELIVERY | DELIVERED
  | CANCELLED | RETURNED

datatype PaymentMethod = CASH_ON_DELIVERY | CREDIT_CARD | BANK_TRANSFER | DIGITAL_WALLET

text \<open>
  The enum \<open>PaymentStatus\<close> (\<open>PENDING\<close>, \<open>PAID\<close>, \<open>FAILED\<close>, \<open>REFUNDED\<close>); its values
  carry a prefix here, since \<open>PENDING\<close> and \<open>FAILED\<close> are values of other enums too.
\<close>

datatype PaymentStatus = PAYMENT_PENDING | PAYMENT_PAID | PAYMENT_FAILED | PAYMENT_REFUNDED

datatype DeliveryStatus =
  ASSIGNED | IN_PROGRESS | COMPLETED | FAILED | RESCHEDULED | DELIVERED_UNPAID
  | DELIVERED_PAID | PAYMENT_DISPUTED

datatype Platform = WHATSAPP | TELEGRAM | FACEBOOK | INSTAGRAM | SMS | WEB | EMAIL

record Location =
  latitude :: real
  longitude :: real

record User =
  role :: UserRole
  lastKnownLocation :: "Location option"
  preferredPlatform :: "Platform option"
  isAvailable :: bool
  maxWorkload :: int
  totalCollections :: real
  totalRemittances :: real
  remittanceRating :: jsnum
  fraudIncidents :: int
  isRestricted :: bool

record Order =
  orderStatus :: OrderStatus
  totalAmount :: real
  paymentMethod :: PaymentMethod
  paymentStatus :: PaymentStatus
  deliveryLocation :: "Location option"
  platform :: Platform

datatype FraudFlag =
  amount_discrepancy "real option" "real option"
  | delayed_remittance real time time

record Delivery =
  orderId :: ident
  agentId :: ident
  status :: DeliveryStatus
  attemptCount :: int
  scheduledTime :: time
  completedTime :: "time option"
  currentLocation :: "Location option"
  lastLocationUpdate :: "time option"
  estimatedArrival :: "time option"
  delayMinutes :: "int option"
  delayNotified :: bool
  humanIntervention :: bool
  cashCollected :: "real option"
  cashRemitted :: "real option"
  remittanceTime :: "time option"
  remittanceVerified :: bool
  remittanceProof :: "string option"
  fraudScore :: "jsnum option"
  fraudFlags :: "FraudFlag list option"
  restrictedUntil :: "time option"
  deliveryNotes :: "string option"

datatype error =
  OrderNotFound | DeliveryNotFound | RecordNotFound | NoAgentsAvailable
  | AssignmentFailed | MaxRedeliveryAttempts | TypeError | SendFailed | InvalidValue

section \<open>Scoring\<close>

text \<open>\<open>DeliveryAssignmentService.computeFinalScore\<close>.\<close>

definition computeFinalScore :: "real \<Rightarrow> real \<Rightarrow> real \<Rightarrow> real" where
  "computeFinalScore distance workload successRate =
     (let normalizedWorkload = max 0 (1 - workload / 10)
      in 0.4 * (1 - distance) + 0.3 * normalizedWorkload + 0.3 * successRate)"

text \<open>
  \<open>PaymentVerificationService.calculateFraudScore\<close>. The delay term reads
  \<open>delivery.completedTime!.getTime()\<close> whenever \<open>remittanceTime\<close> is set: on a
  \<open>null\<close> \<open>completedTime\<close> that is a \<open>TypeError\<close>.
\<close>

definition amountDiscrepancy :: "Delivery \<Rightarrow> real" where
  "amountDiscrepancy d =
     \<bar>num_or (cashCollected d) 0 - num_or (cashRemitted d) 0\<bar> / num_or (cashCollected d) 1"

definition remittanceDelay :: "Delivery \<Rightarrow> error + real" where
  "remittanceDelay d =
     (case remittanceTime d of
        None \<Rightarrow> Inr 1
      | Some rt \<Rightarrow>
          (case completedTime d of
             None \<Rightarrow> Inl TypeError
           | Some ct \<Rightarrow> Inr (min 1 (real_of_int (rt - ct) / (24 * 60 * 60 * 1000)))))"

definition calculateFraudScore :: "Delivery \<Rightarrow> User \<Rightarrow> error + jsnum" where
  "calculateFraudScore d agent =
     (case remittanceDelay d of
        Inl e \<Rightarrow> Inl e
      | Inr delay \<Rightarrow>
          (let historicalRating = js_sub (Num 1) (js_or0 (remittanceRating agent));
               fraudHistory = min 1 (real_of_int (fraudIncidents agent) / 5)
           in Inr (js_add
                (js_add
                  (js_add (Num (0.3 * amountDiscrepancy d)) (Num (0.2 * delay)))
                  (js_mul (Num 0.3) historicalRating))
                (Num (0.2 * fraudHistory)))))"

section \<open>The store, the timers and the outside world\<close>

text \<open>
  The database tables are association lists; \<open>findUnique\<close> is \<open>map_of\<close>, an \<open>update\<close>
  rewrites the entry of the key, a \<open>create\<close> appends an entry. \<open>findMany\<close> and
  \<open>findFirst\<close> enumerate a table in the order of the list. The queries of the services
  carry no \<open>orderBy\<close>, so the database is free to return the rows in another order (and
  in a different one after an update). Where a statement below evaluates a query over
  several rows, it does so on data for which the result does not depend on that order
  (the candidates of a ranking have different scores).

  A relation read through \<open>include\<close> (\<open>delivery.order\<close>, \<open>delivery.agent\<close>) is the
  lookup of the foreign key in the table of the same state. A record that one function
  hands to another carries the relations that the query which produced it included, and
  no others: reading a field of a relation that was not included
  (\<open>delivery.order.orderNumber\<close> on a record created with \<open>include: {agent: true}\<close>)
  is a \<open>TypeError\<close>. A function that receives such a record takes the relations it reads
  as optional parameters (\<open>None\<close>: the record does not carry the relation).

  An outgoing message is recorded by its platform, its recipient and its kind; its text
  is not modelled. Whether \<open>communicationService.sendMessage\<close> delivers a message or
  throws is decided by the environment, a predicate on messages. The services' timer
  maps are the sets of the delivery ids that hold a timer. The clock is a parameter
  \<open>now\<close> of every operation that reads it.
\<close>

datatype Recipient = ToAgent ident | ToCustomer ident | ToAdmin | ToFinance

datatype MessageKind =
  AssignmentNotice | AssignmentCancelled | OutForDelivery | DelayCustomerNotice
  | DelayAgentNotice | AdminDelayAlert | ReassignedNotice | FraudAlert | DiscrepancyAlert
  | DeliveryScheduledNotice | RedeliveryNotice | DeliveredNotice

type_synonym Message = "Platform \<times> Recipient \<times> MessageKind"

type_synonym Env = "Message \<Rightarrow> bool"

type_synonym Interaction = "string \<times> ident"

record State =
  users :: "(ident \<times> User) list"
  orders :: "(ident \<times> Order) list"
  deliveries :: "(ident \<times> Delivery) list"
  assignmentTimers :: "ident set"
  monitoringIntervals :: "ident set"
  outbox :: "Message list"
  interactions :: "Interaction list"

type_synonym 'a result = "(error + 'a) \<times> State"

definition sendMessage :: "Env \<Rightarrow> Message \<Rightarrow> State \<Rightarrow> unit result" where
  "sendMessage env m s =
     (if env m then (Inr (), s\<lparr>outbox := outbox s @ [m]\<rparr>) else (Inl SendFailed, s))"

definition logInteraction :: "Interaction \<Rightarrow> State \<Rightarrow> State" where
  "logInteraction i s = s\<lparr>interactions := interactions s @ [i]\<rparr>"

definition updateDelivery :: "ident \<Rightarrow> (Delivery \<Rightarrow> Delivery) \<Rightarrow> State \<Rightarrow> State" where
  "updateDelivery k f s = s\<lparr>deliveries := AList.map_entry k f (deliveries s)\<rparr>"

definition updateUser :: "ident \<Rightarrow> (User \<Rightarrow> User) \<Rightarrow> State \<Rightarrow> State" where
  "updateUser k f s = s\<lparr>users := AList.map_entry k f (users s)\<rparr>"

definition updateOrder :: "ident \<Rightarrow> (Order \<Rightarrow> Order) \<Rightarrow> State \<Rightarrow> State" where
  "updateOrder k f s = s\<lparr>orders := AList.map_entry k f (orders s)\<rparr>"

text \<open>The id of a created record: one that no record of the table has.\<close>

definition freshId :: "(ident \<times> 'a) list \<Rightarrow> ident" where
  "freshId tbl = fold (\<lambda>kv m. max (Suc (fst kv)) m) tbl 0"

text \<open>\<open>prisma.delivery.create\<close> with the defaults of the schema.\<close>

definition newDelivery :: "ident \<Rightarrow> ident \<Rightarrow> DeliveryStatus \<Rightarrow> time \<Rightarrow> Delivery" where
  "newDelivery oid aid st sched =
     \<lparr>orderId = oid, agentId = aid, status = st, attemptCount = 1, scheduledTime = sched,
      completedTime = None, currentLocation = None, lastLocationUpdate = None,
      estimatedArrival = None, delayMinutes = None, delayNotified = False,
      humanIntervention = False, cashCollected = None, cashRemitted = None,
      remittanceTime = None, remittanceVerified = False, remittanceProof = None,
      fraudScore = Some (Num 0), fraudFlags = None, restrictedUntil = None,
      deliveryNotes = None\<rparr>"

text \<open>\<open>agent.preferredPlatform || 'WHATSAPP'\<close>.\<close>

definition agentPlatform :: "User \<Rightarrow> Platform" where
  "agentPlatform u = (case preferredPlatform u of None \<Rightarrow> WHATSAPP | Some p \<Rightarrow> p)"

section \<open>DeliveryAssignmentService\<close>

record AgentScore =
  scoredAgentId :: ident
  score :: real
  distance :: real
  workload :: real
  successRate :: real

definition activeStatus :: "DeliveryStatus \<Rightarrow> bool" where
  "activeStatus st = (st = ASSIGNED \<or> st = IN_PROGRESS)"

text \<open>
  \<open>findAvailableAgents\<close>: the users with the role \<open>DELIVERY_AGENT\<close>, each with its
  deliveries in status \<open>ASSIGNED\<close> or \<open>IN_PROGRESS\<close>. The query has no other condition.
\<close>

definition activeDeliveries :: "State \<Rightarrow> ident \<Rightarrow> (ident \<times> Delivery) list" where
  "activeDeliveries s aid =
     filter (\<lambda>kd. agentId (snd kd) = aid \<and> activeStatus (status (snd kd))) (deliveries s)"

definition findAvailableAgents :: "State \<Rightarrow> (ident \<times> User \<times> (ident \<times> Delivery) list) list" where
  "findAvailableAgents s =
     map (\<lambda>ku. (fst ku, snd ku, activeDeliveries s (fst ku)))
       (filter (\<lambda>ku. role (snd ku) = DELIVERY_AGENT) (users s))"

text \<open>\<open>calculateDistance\<close> of the assignment service is a placeholder that returns 1.\<close>

definition calculateDistance :: "Location option \<Rightarrow> Order \<Rightarrow> real" where
  "calculateDistance agentLocation order = 1"

definition calculateSuccessRate :: "State \<Rightarrow> ident \<Rightarrow> real" where
  "calculateSuccessRate s aid =
     (let deliveryHistory =
            filter (\<lambda>kd. agentId (snd kd) = aid
                      \<and> (status (snd kd) = COMPLETED \<or> status (snd kd) = FAILED)) (deliveries s)
      in if deliveryHistory = [] then 0.5
         else real (length (filter (\<lambda>kd. status (snd kd) = COMPLETED) deliveryHistory))
              / real (length deliveryHistory))"

definition calculateAgentScore ::
  "State \<Rightarrow> Order \<Rightarrow> ident \<times> User \<times> (ident \<times> Delivery) list \<Rightarrow> AgentScore" where
  "calculateAgentScore s order agent =
     (let dist = calculateDistance (lastKnownLocation (fst (snd agent))) order;
          wl = real (length (snd (snd agent)));
          sr = calculateSuccessRate s (fst agent)
      in \<lparr>scoredAgentId = fst agent, score = computeFinalScore dist wl sr,
          distance = dist, workload = wl, successRate = sr\<rparr>)"

text \<open>\<open>agentScores.sort((a, b) => b.score - a.score)\<close>: descending by score, stable.\<close>

definition sortAgents :: "AgentScore list \<Rightarrow> AgentScore list" where
  "sortAgents xs = sort_key (\<lambda>a. - score a) xs"

text \<open>
  \<open>notifyAgent\<close> puts its text together from \<open>delivery.order.orderNumber\<close> and
  \<open>delivery.order.deliveryAddress\<close> before it sends anything: on a record without the
  relation \<open>order\<close> it ends in a \<open>TypeError\<close>.
\<close>

definition notifyAgent :: "Env \<Rightarrow> Order option \<Rightarrow> User \<Rightarrow> ident \<Rightarrow> State \<Rightarrow> unit result" where
  "notifyAgent env order agent aid s =
     (case order of
        None \<Rightarrow> (Inl TypeError, s)
      | Some ord \<Rightarrow> sendMessage env (agentPlatform agent, ToAgent aid, AssignmentNotice) s)"

text \<open>
  \<open>attemptAssignment\<close>: for each candidate in order, create the delivery, notify the
  agent, arm the confirmation timer and log; a failure goes on to the next candidate
  (the delivery created for the failed candidate stays in the table). The delivery is
  created with \<open>include: {agent: true}\<close>, so the record given to \<open>notifyAgent\<close> has
  the agent and no order.
\<close>

fun attemptAssignment :: "Env \<Rightarrow> time \<Rightarrow> ident \<Rightarrow> AgentScore list \<Rightarrow> State \<Rightarrow> ident result" where
  "attemptAssignment env now oid [] s = (Inl AssignmentFailed, s)"
| "attemptAssignment env now oid (a # rest) s =
     (case map_of (users s) (scoredAgentId a) of
        None \<Rightarrow> attemptAssignment env now oid rest s
      | Some u \<Rightarrow>
          (let did = freshId (deliveries s);
               s1 = s\<lparr>deliveries := deliveries s
                      @ [(did, newDelivery oid (scoredAgentId a) ASSIGNED (now + 30 * 60 * 1000))]\<rparr>
           in case notifyAgent env None u (scoredAgentId a) s1 of
                (Inl e, s2) \<Rightarrow> attemptAssignment env now oid rest s2
              | (Inr _, s2) \<Rightarrow>
                  (Inr did,
                   logInteraction (''delivery_assignment'', oid)
                     (s2\<lparr>assignmentTimers := insert did (assignmentTimers s2)\<rparr>))))"

definition assignDeliveryAgent :: "Env \<Rightarrow> time \<Rightarrow> ident \<Rightarrow> State \<Rightarrow> ident result" where
  "assignDeliveryAgent env now oid s =
     (case map_of (orders s) oid of
        None \<Rightarrow> (Inl OrderNotFound, s)
      | Some order \<Rightarrow>
          (let availableAgents = findAvailableAgents s
           in if availableAgents = [] then (Inl NoAgentsAvailable, s)
              else attemptAssignment env now oid
                     (sortAgents (map (calculateAgentScore s order) availableAgents)) s))"

text \<open>
  \<open>handleUnconfirmedAssignment\<close>, the callback of the confirmation timer and the
  rejection path: it reads the delivery again and returns when it is no longer
  \<open>ASSIGNED\<close>; otherwise it marks it \<open>FAILED\<close>, tells the agent and calls
  \<open>assignDeliveryAgent\<close> for the order. The notice to the agent is put together from
  the record the caller passed (\<open>delivery.agent\<close>, \<open>delivery.order.orderNumber\<close>), not
  from the record read again. Both callers pass a record with its agent; \<open>order\<close> is
  the relation \<open>order\<close> of that record: the timer passes the record that
  \<open>attemptAssignment\<close> created (no order), the rejection path passes the record it read
  with \<open>include: {order: true, agent: true}\<close>.
\<close>

definition handleUnconfirmedAssignment ::
  "Env \<Rightarrow> time \<Rightarrow> ident \<Rightarrow> Order option \<Rightarrow> State \<Rightarrow> unit result" where
  "handleUnconfirmedAssignment env now did order s =
     (case map_of (deliveries s) did of
        None \<Rightarrow> (Inr (), s)
      | Some cur \<Rightarrow>
          if status cur \<noteq> ASSIGNED then (Inr (), s)
          else
            (let s1 = updateDelivery did (\<lambda>d. d\<lparr>status := FAILED\<rparr>) s
             in case map_of (users s1) (agentId cur) of
                  None \<Rightarrow> (Inl RecordNotFound, s1)
                | Some u \<Rightarrow>
                    (case order of
                       None \<Rightarrow> (Inl TypeError, s1)
                     | Some ord \<Rightarrow>
                         (case sendMessage env (agentPlatform u, ToAgent (agentId cur), AssignmentCancelled) s1 of
                            (Inl e, s2) \<Rightarrow> (Inl e, s2)
                          | (Inr _, s2) \<Rightarrow>
                              (case assignDeliveryAgent env now (orderId cur) s2 of
                                 (Inl e, s3) \<Rightarrow> (Inl e, s3)
                               | (Inr _, s3) \<Rightarrow> (Inr (), s3))))))"

definition clearAssignmentTimer :: "ident \<Rightarrow> State \<Rightarrow> State" where
  "clearAssignmentTimer did s = s\<lparr>assignmentTimers := assignmentTimers s - {did}\<rparr>"

text \<open>
  The timer of a delivery fires only while the map holds it; its callback runs
  \<open>handleUnconfirmedAssignment\<close> on the record that \<open>attemptAssignment\<close> created.
\<close>

definition assignmentTimeout :: "Env \<Rightarrow> time \<Rightarrow> ident \<Rightarrow> State \<Rightarrow> unit result" where
  "assignmentTimeout env now did s =
     (if did \<in> assignmentTimers s then handleUnconfirmedAssignment env now did None s
      else (Inr (), s))"

text \<open>
  \<open>handleAgentConfirmation\<close> reads the delivery with \<open>include: {order: true, agent: true}\<close>.
  On a confirmation it writes the two statuses in one transaction and clears the timer;
  the notice to the customer then reads \<open>delivery.order.customer.phone\<close>, and the record
  has no customer: the call ends in a \<open>TypeError\<close> after the writes, and its
  \<open>return true\<close> is never reached. On a rejection it passes its record to
  \<open>handleUnconfirmedAssignment\<close>.
\<close>

definition handleAgentConfirmation :: "Env \<Rightarrow> time \<Rightarrow> ident \<Rightarrow> bool \<Rightarrow> State \<Rightarrow> bool result" where
  "handleAgentConfirmation env now did confirmed s =
     (case map_of (deliveries s) did of
        None \<Rightarrow> (Inl DeliveryNotFound, s)
      | Some d \<Rightarrow>
          if confirmed then
            (case map_of (orders s) (orderId d) of
               None \<Rightarrow> (Inl RecordNotFound, s)
             | Some order \<Rightarrow>
                 (let s1 = updateOrder (orderId d) (\<lambda>ord. ord\<lparr>orderStatus := IN_DELIVERY\<rparr>)
                             (updateDelivery did (\<lambda>d. d\<lparr>status := IN_PROGRESS\<rparr>) s);
                      s2 = clearAssignmentTimer did s1
                  in (Inl TypeError, s2)))
          else
            (case handleUnconfirmedAssignment env now did (map_of (orders s) (orderId d)) s of
               (Inl e, s1) \<Rightarrow> (Inl e, s1)
             | (Inr _, s1) \<Rightarrow> (Inr False, s1)))"

section \<open>DeliveryMonitoringService\<close>

definition stopMonitoring :: "ident \<Rightarrow> State \<Rightarrow> State" where
  "stopMonitoring did s = s\<lparr>monitoringIntervals := monitoringIntervals s - {did}\<rparr>"

definition startMonitoring :: "ident \<Rightarrow> State \<Rightarrow> unit result" where
  "startMonitoring did s =
     (case map_of (deliveries s) did of
        None \<Rightarrow> (Inl DeliveryNotFound, s)
      | Some d \<Rightarrow>
          (Inr (), logInteraction (''delivery_monitoring'', did)
                     (s\<lparr>monitoringIntervals := insert did (monitoringIntervals s)\<rparr>)))"

text \<open>\<open>Math.max(0, Math.floor((eta - scheduled) / (1000 * 60)))\<close>.\<close>

definition calculateDelay :: "time \<Rightarrow> time \<Rightarrow> int" where
  "calculateDelay sched eta = max 0 ((eta - sched) div (1000 * 60))"

definition deg2rad :: "real \<Rightarrow> real" where
  "deg2rad deg = deg * (pi / 180)"

text \<open>\<open>Math.atan2(y, x)\<close> on finite arguments.\<close>

definition js_atan2 :: "real \<Rightarrow> real \<Rightarrow> real" where
  "js_atan2 y x =
     (if 0 < x then arctan (y / x)
      else if x < 0 then (if 0 \<le> y then arctan (y / x) + pi else arctan (y / x) - pi)
      else if 0 < y then pi / 2
      else if y < 0 then - (pi / 2)
      else 0)"

definition haversine :: "Location \<Rightarrow> Location \<Rightarrow> real" where
  "haversine point1 point2 =
     (let dLat = deg2rad (latitude point2 - latitude point1);
          dLon = deg2rad (longitude point2 - longitude point1)
      in sin (dLat / 2) * sin (dLat / 2)
         + cos (deg2rad (latitude point1)) * cos (deg2rad (latitude point2))
           * sin (dLon / 2) * sin (dLon / 2))"

text \<open>
  \<open>calculateDistance\<close> of the monitoring service (the great-circle distance in km). The
  value \<open>a\<close> under the square roots lies in \<open>[0, 1]\<close> for all coordinates (lemma
  \<open>haversine_range\<close> below), so over the reals neither square root is undefined. (In
  doubles, rounding can lift \<open>a\<close> above 1 for two points that are exactly antipodal; that
  is outside this model.)
\<close>

definition calculateDistance_monitoring :: "Location \<Rightarrow> Location \<Rightarrow> real" where
  "calculateDistance_monitoring point1 point2 =
     (let a = haversine point1 point2;
          c = 2 * js_atan2 (sqrt a) (sqrt (1 - a))
      in 6371 * c)"

text \<open>
  \<open>Date.getHours\<close> and \<open>Date.setHours\<close>, in a time zone without clock changes (UTC):
  \<open>setHours\<close> truncates its argument to an integer and keeps the minutes, seconds and
  milliseconds.
\<close>

definition js_trunc :: "real \<Rightarrow> int" where
  "js_trunc x = (if 0 \<le> x then \<lfloor>x\<rfloor> else \<lceil>x\<rceil>)"

definition getHours :: "time \<Rightarrow> int" where
  "getHours t = (t div 3600000) mod 24"

definition setHours :: "time \<Rightarrow> real \<Rightarrow> time" where
  "setHours t h = t + (js_trunc h - getHours t) * 3600000"

definition calculateETA :: "time \<Rightarrow> Location \<Rightarrow> Location \<Rightarrow> time" where
  "calculateETA now cur dest =
     (let dist = calculateDistance_monitoring cur dest;
          averageSpeed = 30;
          estimatedTimeHours = dist / averageSpeed
      in setHours now (real_of_int (getHours now) + estimatedTimeHours))"

definition triggerHumanIntervention :: "Env \<Rightarrow> ident \<Rightarrow> State \<Rightarrow> unit result" where
  "triggerHumanIntervention env did s =
     (case sendMessage env (WHATSAPP, ToAdmin, AdminDelayAlert) s of
        (Inl e, s1) \<Rightarrow> (Inl e, s1)
      | (Inr _, s1) \<Rightarrow>
          (case sendMessage env (TELEGRAM, ToAdmin, AdminDelayAlert) s1 of
             (Inl e, s2) \<Rightarrow> (Inl e, s2)
           | (Inr _, s2) \<Rightarrow>
               (case sendMessage env (EMAIL, ToAdmin, AdminDelayAlert) s2 of
                  (Inl e, s3) \<Rightarrow> (Inl e, s3)
                | (Inr _, s3) \<Rightarrow> (Inr (), logInteraction (''human_intervention'', did) s3))))"

text \<open>
  \<open>handleDelay\<close> works on the delivery object its caller read (\<open>d\<close>), not on the
  table: \<open>delayNotified\<close> is the value of that snapshot, and \<open>order\<close> and \<open>agent\<close>
  are the relations the snapshot carries. The notice to the customer reads the order
  (with its customer), the notice to the agent reads the agent. \<open>checkDeliveryProgress\<close>
  passes a record with both; \<open>updateLocation\<close> reads the delivery with
  \<open>include: {order: {include: {customer: true}}}\<close> and passes a record without agent.
\<close>

definition handleDelay ::
  "Env \<Rightarrow> ident \<Rightarrow> Delivery \<Rightarrow> Order option \<Rightarrow> User option \<Rightarrow> int \<Rightarrow> State \<Rightarrow> unit result" where
  "handleDelay env did d order agent delay s =
     (if delayNotified d then (Inr (), s)
      else
        (case order of
           None \<Rightarrow> (Inl TypeError, s)
         | Some ord \<Rightarrow>
             (case sendMessage env (platform ord, ToCustomer (orderId d), DelayCustomerNotice) s of
                (Inl e, s1) \<Rightarrow> (Inl e, s1)
              | (Inr _, s1) \<Rightarrow>
                  (case agent of
                     None \<Rightarrow> (Inl TypeError, s1)
                   | Some ag \<Rightarrow>
                       (case sendMessage env (agentPlatform ag, ToAgent (agentId d), DelayAgentNotice) s1 of
                          (Inl e, s2) \<Rightarrow> (Inl e, s2)
                        | (Inr _, s2) \<Rightarrow>
                            (case triggerHumanIntervention env did s2 of
                               (Inl e, s3) \<Rightarrow> (Inl e, s3)
                             | (Inr _, s3) \<Rightarrow>
                                 (Inr (),
                                  updateDelivery did
                                    (\<lambda>x. x\<lparr>delayMinutes := Some delay, delayNotified := True,
                                            humanIntervention := True\<rparr>) s3)))))))"

text \<open>
  \<open>initiateReassignment\<close>; the note written to the delivery also carries the delay in
  minutes, the model stores the fixed part of its text.
\<close>

definition initiateReassignment :: "Env \<Rightarrow> time \<Rightarrow> ident \<Rightarrow> Delivery \<Rightarrow> State \<Rightarrow> unit result" where
  "initiateReassignment env now did d s =
     (let s1 = updateDelivery did
                 (\<lambda>x. x\<lparr>status := FAILED,
                         deliveryNotes := Some ''Reassigned due to excessive delay''\<rparr>) s
      in case map_of (users s1) (agentId d) of
           None \<Rightarrow> (Inl RecordNotFound, s1)
         | Some agent \<Rightarrow>
             (case sendMessage env (agentPlatform agent, ToAgent (agentId d), ReassignedNotice) s1 of
                (Inl e, s2) \<Rightarrow> (Inl e, s2)
              | (Inr _, s2) \<Rightarrow>
                  (case assignDeliveryAgent env now (orderId d) s2 of
                     (Inl e, s3) \<Rightarrow> (Inl e, s3)
                   | (Inr _, s3) \<Rightarrow> (Inr (), logInteraction (''delivery_reassignment'', did) s3))))"

definition updateLocation :: "Env \<Rightarrow> time \<Rightarrow> ident \<Rightarrow> Location \<Rightarrow> State \<Rightarrow> unit result" where
  "updateLocation env now did loc s =
     (case map_of (deliveries s) did of
        None \<Rightarrow> (Inl DeliveryNotFound, s)
      | Some d \<Rightarrow>
          (case map_of (orders s) (orderId d) of
             None \<Rightarrow> (Inl RecordNotFound, s)
           | Some order \<Rightarrow>
               (case deliveryLocation order of
                  None \<Rightarrow> (Inl TypeError, s)
                | Some dest \<Rightarrow>
                    (let eta = calculateETA now loc dest;
                         s1 = updateDelivery did
                                (\<lambda>x. x\<lparr>currentLocation := Some loc,
                                        lastLocationUpdate := Some now,
                                        estimatedArrival := Some eta\<rparr>) s;
                         delay = calculateDelay (scheduledTime d) eta
                     in if 15 < delay then handleDelay env did d (Some order) None delay s1
                        else (Inr (), s1)))))"

text \<open>
  \<open>checkDeliveryProgress\<close>, the callback of the 5-minute interval. Its \<open>catch\<close> logs
  and swallows every error, so it returns the state only. The one status it tests is
  \<open>COMPLETED\<close>.
\<close>

definition checkDeliveryProgress :: "Env \<Rightarrow> time \<Rightarrow> ident \<Rightarrow> State \<Rightarrow> State" where
  "checkDeliveryProgress env now did s =
     (case map_of (deliveries s) did of
        None \<Rightarrow> stopMonitoring did s
      | Some d \<Rightarrow>
          if status d = COMPLETED then stopMonitoring did s
          else
            (let delay = calculateDelay (scheduledTime d)
                           (case estimatedArrival d of None \<Rightarrow> now | Some eta \<Rightarrow> eta)
             in case (if 15 < delay
                      then handleDelay env did d (map_of (orders s) (orderId d))
                             (map_of (users s) (agentId d)) delay s
                      else (Inr (), s)) of
                  (Inl e, s1) \<Rightarrow> s1
                | (Inr _, s1) \<Rightarrow>
                    if 120 < delay \<and> \<not> humanIntervention d
                    then snd (initiateReassignment env now did d s1)
                    else s1))"

text \<open>The interval of a delivery fires only while the map holds it.\<close>

definition monitoringTick :: "Env \<Rightarrow> time \<Rightarrow> ident \<Rightarrow> State \<Rightarrow> State" where
  "monitoringTick env now did s =
     (if did \<in> monitoringIntervals s then checkDeliveryProgress env now did s else s)"

section \<open>PaymentVerificationService\<close>

definition FRAUD_SCORE_THRESHOLD :: real where
  "FRAUD_SCORE_THRESHOLD = 0.7"

definition RESTRICTION_DURATION :: int where
  "RESTRICTION_DURATION = 7 * 24 * 60 * 60 * 1000"

definition flagDiscrepancy :: "Env \<Rightarrow> ident \<Rightarrow> State \<Rightarrow> unit result" where
  "flagDiscrepancy env did s =
     (case sendMessage env (EMAIL, ToFinance, DiscrepancyAlert) s of
        (Inl e, s1) \<Rightarrow> (Inl e, s1)
      | (Inr _, s1) \<Rightarrow> (Inr (), logInteraction (''amount_discrepancy'', did) s1))"

definition detectFraudPatterns :: "Delivery \<Rightarrow> FraudFlag list" where
  "detectFraudPatterns d =
     (if cashCollected d \<noteq> cashRemitted d
      then [amount_discrepancy (cashCollected d) (cashRemitted d)] else [])
     @ (case (remittanceTime d, completedTime d) of
          (Some rt, Some ct) \<Rightarrow>
            (let delayHours = real_of_int (rt - ct) / (60 * 60 * 1000)
             in if 24 < delayHours then [delayed_remittance delayHours ct rt] else [])
        | _ \<Rightarrow> [])"

definition handleFraudSuspicion :: "Env \<Rightarrow> time \<Rightarrow> ident \<Rightarrow> Delivery \<Rightarrow> State \<Rightarrow> unit result" where
  "handleFraudSuspicion env now did d s =
     (let restrictionEnd = now + RESTRICTION_DURATION;
          s1 = updateUser (agentId d)
                 (\<lambda>u. u\<lparr>isRestricted := True, fraudIncidents := fraudIncidents u + 1\<rparr>) s;
          s2 = updateDelivery did
                 (\<lambda>x. x\<lparr>status := PAYMENT_DISPUTED, restrictedUntil := Some restrictionEnd\<rparr>) s1
      in case sendMessage env (EMAIL, ToFinance, FraudAlert) s2 of
           (Inl e, s3) \<Rightarrow> (Inl e, s3)
         | (Inr _, s3) \<Rightarrow> (Inr (), logInteraction (''fraud_alert'', did) s3))"

text \<open>
  \<open>updateAgentRating\<close> divides the totals of the agent object it is given; nothing
  tests \<open>totalCollections\<close> before the division. The database client refuses a value of
  a \<open>Float\<close> column that is not finite: when \<open>Math.min(1, rating)\<close> is \<open>NaN\<close> or
  \<open>-Infinity\<close> the update throws and the rating stays.
\<close>

definition updateAgentRating :: "ident \<Rightarrow> User \<Rightarrow> State \<Rightarrow> unit result" where
  "updateAgentRating aid agent s =
     (let rating = js_div (totalRemittances agent) (totalCollections agent)
      in case js_min1 rating of
           Num r \<Rightarrow> (Inr (), updateUser aid (\<lambda>u. u\<lparr>remittanceRating := Num r\<rparr>) s)
         | _ \<Rightarrow> (Inl InvalidValue, s))"

definition verifyRemittance :: "Env \<Rightarrow> time \<Rightarrow> ident \<Rightarrow> State \<Rightarrow> unit result" where
  "verifyRemittance env now did s =
     (case map_of (deliveries s) did of
        None \<Rightarrow> (Inl DeliveryNotFound, s)
      | Some d \<Rightarrow>
          (case map_of (users s) (agentId d) of
             None \<Rightarrow> (Inl RecordNotFound, s)
           | Some agent \<Rightarrow>
               (case calculateFraudScore d agent of
                  Inl e \<Rightarrow> (Inl e, s)
                | Inr sc \<Rightarrow>
                    (let flags = detectFraudPatterns d;
                         s1 = updateDelivery did
                                (\<lambda>x. x\<lparr>fraudScore := Some sc,
                                        fraudFlags := (if flags \<noteq> [] then Some flags else fraudFlags x),
                                        remittanceVerified := js_lt sc FRAUD_SCORE_THRESHOLD\<rparr>) s
                     in if js_ge sc FRAUD_SCORE_THRESHOLD
                        then handleFraudSuspicion env now did d s1
                        else updateAgentRating (agentId d) agent s1))))"

text \<open>
  \<open>verifyRemittance\<close> writes the assessment and acts on the score in two separate
  awaited updates, and nothing locks the delivery between them: while the first update
  is awaited, the server handles other requests. \<open>verifyRemittance_overlapped\<close> is the
  run of \<open>verifyRemittance\<close> in which the requests handled at that point change the
  store by \<open>between\<close>; the run goes on with the delivery and the agent it read at its
  start. With \<open>between = (\<lambda>s. s)\<close> it is \<open>verifyRemittance\<close>.
\<close>

definition verifyRemittance_overlapped ::
  "Env \<Rightarrow> time \<Rightarrow> ident \<Rightarrow> (State \<Rightarrow> State) \<Rightarrow> State \<Rightarrow> unit result" where
  "verifyRemittance_overlapped env now did between s =
     (case map_of (deliveries s) did of
        None \<Rightarrow> (Inl DeliveryNotFound, s)
      | Some d \<Rightarrow>
          (case map_of (users s) (agentId d) of
             None \<Rightarrow> (Inl RecordNotFound, s)
           | Some agent \<Rightarrow>
               (case calculateFraudScore d agent of
                  Inl e \<Rightarrow> (Inl e, s)
                | Inr sc \<Rightarrow>
                    (let flags = detectFraudPatterns d;
                         s1 = updateDelivery did
                                (\<lambda>x. x\<lparr>fraudScore := Some sc,
                                        fraudFlags := (if flags \<noteq> [] then Some flags else fraudFlags x),
                                        remittanceVerified := js_lt sc FRAUD_SCORE_THRESHOLD\<rparr>) s;
                         s2 = between s1
                     in if js_ge sc FRAUD_SCORE_THRESHOLD
                        then handleFraudSuspicion env now did d s2
                        else updateAgentRating (agentId d) agent s2))))"

definition recordCashCollection :: "Env \<Rightarrow> ident \<Rightarrow> real \<Rightarrow> State \<Rightarrow> unit result" where
  "recordCashCollection env did amount s =
     (case map_of (deliveries s) did of
        None \<Rightarrow> (Inl DeliveryNotFound, s)
      | Some d \<Rightarrow>
          (case map_of (orders s) (orderId d) of
             None \<Rightarrow> (Inl RecordNotFound, s)
           | Some order \<Rightarrow>
               (case (if amount \<noteq> totalAmount order then flagDiscrepancy env did s else (Inr (), s)) of
                  (Inl e, s1) \<Rightarrow> (Inl e, s1)
                | (Inr _, s1) \<Rightarrow>
                    (Inr (),
                     logInteraction (''cash_collection'', did)
                       (updateUser (agentId d)
                          (\<lambda>u. u\<lparr>totalCollections := totalCollections u + amount\<rparr>)
                          (updateDelivery did
                             (\<lambda>x. x\<lparr>cashCollected := Some amount, status := DELIVERED_UNPAID\<rparr>)
                             s1))))))"

text \<open>
  \<open>recordCashRemittance\<close>; an update leaves a column whose value is \<open>undefined\<close> as it
  is, so without a \<open>proofUrl\<close> the stored \<open>remittanceProof\<close> stays.
\<close>

definition recordCashRemittance ::
  "Env \<Rightarrow> time \<Rightarrow> ident \<Rightarrow> real \<Rightarrow> string option \<Rightarrow> State \<Rightarrow> unit result" where
  "recordCashRemittance env now did amount proofUrl s =
     (case map_of (deliveries s) did of
        None \<Rightarrow> (Inl DeliveryNotFound, s)
      | Some d \<Rightarrow>
          (case (if Some amount \<noteq> cashCollected d then flagDiscrepancy env did s else (Inr (), s)) of
             (Inl e, s1) \<Rightarrow> (Inl e, s1)
           | (Inr _, s1) \<Rightarrow>
               verifyRemittance env now did
                 (updateUser (agentId d)
                    (\<lambda>u. u\<lparr>totalRemittances := totalRemittances u + amount\<rparr>)
                    (updateDelivery did
                       (\<lambda>x. x\<lparr>cashRemitted := Some amount, remittanceTime := Some now,
                               remittanceProof := (case proofUrl of None \<Rightarrow> remittanceProof x
                                                   | Some url \<Rightarrow> Some url),
                               status := DELIVERED_PAID\<rparr>)
                       s1))))"

section \<open>OrderService and the completion route\<close>

text \<open>
  \<open>OrderService.assignDeliveryAgent\<close>: the first user with the role \<open>DELIVERY_AGENT\<close>
  that \<open>findFirst\<close> returns (here the first of the table; no statement below depends
  on which of the agents it is).
\<close>

definition firstDeliveryAgent :: "State \<Rightarrow> error + ident" where
  "firstDeliveryAgent s =
     (case filter (\<lambda>ku. role (snd ku) = DELIVERY_AGENT) (users s) of
        [] \<Rightarrow> Inl NoAgentsAvailable
      | ku # rest \<Rightarrow> Inr (fst ku))"

text \<open>\<open>calculateDeliveryTime\<close>: one hour from now.\<close>

definition calculateDeliveryTime :: "time \<Rightarrow> time" where
  "calculateDeliveryTime now = setHours now (real_of_int (getHours now + 1))"

definition processDelivery :: "Env \<Rightarrow> time \<Rightarrow> ident \<Rightarrow> State \<Rightarrow> ident result" where
  "processDelivery env now oid s =
     (case map_of (orders s) oid of
        None \<Rightarrow> (Inl OrderNotFound, s)
      | Some order \<Rightarrow>
          (case firstDeliveryAgent s of
             Inl e \<Rightarrow> (Inl e, s)
           | Inr aid \<Rightarrow>
               (let did = freshId (deliveries s);
                    s1 = s\<lparr>deliveries := deliveries s
                           @ [(did, newDelivery oid aid ASSIGNED (calculateDeliveryTime now))]\<rparr>;
                    s2 = updateOrder oid (\<lambda>ord. ord\<lparr>orderStatus := IN_DELIVERY\<rparr>) s1
                in case sendMessage env (platform order, ToCustomer oid, DeliveryScheduledNotice) s2 of
                     (Inl e, s3) \<Rightarrow> (Inl e, s3)
                   | (Inr _, s3) \<Rightarrow> (Inr did, s3))))"

text \<open>
  \<open>requestRedelivery\<close>: refused when the order has two deliveries or more; the new
  delivery counts the attempts of the order.
\<close>

definition requestRedelivery :: "Env \<Rightarrow> time \<Rightarrow> ident \<Rightarrow> State \<Rightarrow> ident result" where
  "requestRedelivery env now oid s =
     (case map_of (orders s) oid of
        None \<Rightarrow> (Inl OrderNotFound, s)
      | Some order \<Rightarrow>
          (let attempts = length (filter (\<lambda>kd. orderId (snd kd) = oid) (deliveries s))
           in if 2 \<le> attempts then (Inl MaxRedeliveryAttempts, s)
              else
                (case firstDeliveryAgent s of
                   Inl e \<Rightarrow> (Inl e, s)
                 | Inr aid \<Rightarrow>
                     (let did = freshId (deliveries s);
                          s1 = s\<lparr>deliveries := deliveries s
                                 @ [(did, (newDelivery oid aid ASSIGNED (calculateDeliveryTime now))
                                            \<lparr>attemptCount := int attempts + 1\<rparr>)]\<rparr>
                      in case sendMessage env (platform order, ToCustomer oid, RedeliveryNotice) s1 of
                           (Inl e, s2) \<Rightarrow> (Inl e, s2)
                         | (Inr _, s2) \<Rightarrow> (Inr did, s2)))))"

text \<open>
  The route \<open>POST /api/deliveries/:id/complete\<close>: it marks the delivery \<open>COMPLETED\<close> with
  the completion time, stops the monitor, records the cash of a cash-on-delivery order
  (when an amount other than 0 is given) or marks the order paid and delivered, and
  tells the customer.
\<close>

definition completeDelivery :: "Env \<Rightarrow> time \<Rightarrow> ident \<Rightarrow> real option \<Rightarrow> State \<Rightarrow> unit result" where
  "completeDelivery env now did cash s =
     (case map_of (deliveries s) did of
        None \<Rightarrow> (Inl RecordNotFound, s)
      | Some d \<Rightarrow>
          (case map_of (orders s) (orderId d) of
             None \<Rightarrow> (Inl RecordNotFound, s)
           | Some order \<Rightarrow>
               (let s1 = stopMonitoring did
                           (updateDelivery did
                              (\<lambda>x. x\<lparr>status := COMPLETED, completedTime := Some now\<rparr>) s)
                in case (if paymentMethod order = CASH_ON_DELIVERY \<and> num_or cash 0 \<noteq> 0
                         then recordCashCollection env did (num_or cash 0) s1
                         else (Inr (),
                               updateOrder (orderId d)
                                 (\<lambda>ord. ord\<lparr>orderStatus := DELIVERED, paymentStatus := PAYMENT_PAID\<rparr>)
                                 s1)) of
                     (Inl e, s2) \<Rightarrow> (Inl e, s2)
                   | (Inr _, s2) \<Rightarrow>
                       sendMessage env (platform order, ToCustomer (orderId d), DeliveredNotice) s2)))"

section \<open>Histories of calls\<close>

text \<open>
  The calls of the services: the operations the API layer invokes, the two timers, and
  the two timer callbacks run directly (a callback that was already under way when its
  timer was cleared). An event is a call with the environment and the clock value it
  meets; a history is a list of events. In a history every call runs to its end before
  the next one starts: histories are the executions in which no two calls overlap.
\<close>

datatype Call =
  AssignDeliveryAgent ident
  | AssignmentTimerFires ident
  | AssignmentCallback ident
  | HandleAgentConfirmation ident bool
  | ProcessDelivery ident
  | RequestRedelivery ident
  | StartMonitoring ident
  | StopMonitoring ident
  | UpdateLocation ident Location
  | IntervalFires ident
  | ProgressCallback ident
  | CompleteDelivery ident "real option"
  | RecordCashCollection ident real
  | RecordCashRemittance ident real "string option"

fun exec :: "Env \<Rightarrow> time \<Rightarrow> Call \<Rightarrow> State \<Rightarrow> State" where
  "exec env now (AssignDeliveryAgent oid) s = snd (assignDeliveryAgent env now oid s)"
| "exec env now (AssignmentTimerFires did) s = snd (assignmentTimeout env now did s)"
| "exec env now (AssignmentCallback did) s = snd (handleUnconfirmedAssignment env now did None s)"
| "exec env now (HandleAgentConfirmation did confirmed) s =
     snd (handleAgentConfirmation env now did confirmed s)"
| "exec env now (ProcessDelivery oid) s = snd (processDelivery env now oid s)"
| "exec env now (RequestRedelivery oid) s = snd (requestRedelivery env now oid s)"
| "exec env now (StartMonitoring did) s = snd (startMonitoring did s)"
| "exec env now (StopMonitoring did) s = stopMonitoring did s"
| "exec env now (UpdateLocation did loc) s = snd (updateLocation env now did loc s)"
| "exec env now (IntervalFires did) s = monitoringTick env now did s"
| "exec env now (ProgressCallback did) s = checkDeliveryProgress env now did s"
| "exec env now (CompleteDelivery did cash) s = snd (completeDelivery env now did cash s)"
| "exec env now (RecordCashCollection did amount) s = snd (recordCashCollection env did amount s)"
| "exec env now (RecordCashRemittance did amount proofUrl) s =
     snd (recordCashRemittance env now did amount proofUrl s)"

type_synonym Event = "Env \<times> time \<times> Call"

definition run :: "Event list \<Rightarrow> State \<Rightarrow> State" where
  "run evs s = fold (\<lambda>ev. exec (fst ev) (fst (snd ev)) (snd (snd ev))) evs s"

text \<open>The delivery exists and has left the status \<open>ASSIGNED\<close>.\<close>

definition notAssigned :: "ident \<Rightarrow> State \<Rightarrow> bool" where
  "notAssigned did s =
     (case map_of (deliveries s) did of None \<Rightarrow> False | Some d \<Rightarrow> status d \<noteq> ASSIGNED)"

section \<open>Consistency of disputed deliveries\<close>

text \<open>A delivery is never both in status \<open>PAYMENT_DISPUTED\<close> and verified.\<close>

definition consistentDispute :: "Delivery \<Rightarrow> bool" where
  "consistentDispute d = (\<not> (status d = PAYMENT_DISPUTED \<and> remittanceVerified d))"

definition noDisputedVerified :: "State \<Rightarrow> bool" where
  "noDisputedVerified s = list_all (\<lambda>kd. consistentDispute (snd kd)) (deliveries s)"

section \<open>Example data\<close>

definition exampleAgent :: User where
  "exampleAgent =
     \<lparr>role = DELIVERY_AGENT, lastKnownLocation = None, preferredPlatform = None,
      isAvailable = True, maxWorkload = 5, totalCollections = 100, totalRemittances = 100,
      remittanceRating = Num 1, fraudIncidents = 0, isRestricted = False\<rparr>"

text \<open>A delivery whose remittance was recorded although it was never marked completed.\<close>

definition remittedNotCompleted :: Delivery where
  "remittedNotCompleted =
     (newDelivery 1 1 DELIVERED_PAID 0)
       \<lparr>cashCollected := Some 100, cashRemitted := Some 100, remittanceTime := Some 3600000\<rparr>"

definition exampleOrder :: Order where
  "exampleOrder =
     \<lparr>orderStatus = IN_DELIVERY, totalAmount = 100, paymentMethod = CASH_ON_DELIVERY,
      paymentStatus = PAYMENT_PENDING,
      deliveryLocation = Some \<lparr>latitude = 6.5, longitude = 3.4\<rparr>, platform = WHATSAPP\<rparr>"

text \<open>
  One delivery agent who is unavailable, restricted after a fraud incident (the disputed
  delivery 0 carries a \<open>restrictedUntil\<close> after \<open>now\<close>) and at his maximal workload of
  one delivery (delivery 1 is in progress); order 3 waits for an agent.
\<close>

definition restrictedAgentState :: "time \<Rightarrow> State" where
  "restrictedAgentState now =
     \<lparr>users = [(1, exampleAgent\<lparr>isAvailable := False, isRestricted := True, maxWorkload := 1,
                                 fraudIncidents := 1\<rparr>)],
      orders = [(1, exampleOrder\<lparr>orderStatus := DELIVERED\<rparr>), (2, exampleOrder),
                (3, exampleOrder\<lparr>orderStatus := CONFIRMED\<rparr>)],
      deliveries = [(0, (newDelivery 1 1 PAYMENT_DISPUTED 0)\<lparr>restrictedUntil := Some (now + 1000)\<rparr>),
                    (1, newDelivery 2 1 IN_PROGRESS 0)],
      assignmentTimers = {}, monitoringIntervals = {1}, outbox = [], interactions = []\<rparr>"

text \<open>
  Two delivery agents; agent 1 has completed three deliveries, agent 2 has none. Order 1
  waits for an agent.
\<close>

definition twoAgentsState :: State where
  "twoAgentsState =
     \<lparr>users = [(1, exampleAgent), (2, exampleAgent)],
      orders = [(1, exampleOrder\<lparr>orderStatus := CONFIRMED\<rparr>)],
      deliveries = [(0, newDelivery 7 1 COMPLETED 0), (1, newDelivery 8 1 COMPLETED 0),
                    (2, newDelivery 9 1 COMPLETED 0)],
      assignmentTimers = {}, monitoringIntervals = {}, outbox = [], interactions = []\<rparr>"

text \<open>
  A delivery that was handed over and paid for in cash (\<open>DELIVERED_UNPAID\<close>: the cash is
  not remitted yet), with an estimated arrival 20 minutes after the scheduled time, whose
  monitoring interval is still in the map.
\<close>

definition lateDeliveredState :: State where
  "lateDeliveredState =
     \<lparr>users = [(1, exampleAgent)], orders = [(1, exampleOrder)],
      deliveries = [(0, (newDelivery 1 1 DELIVERED_UNPAID 0)
                          \<lparr>estimatedArrival := Some (20 * 60 * 1000),
                           completedTime := Some (25 * 60 * 1000), cashCollected := Some 100\<rparr>)],
      assignmentTimers = {}, monitoringIntervals = {0}, outbox = [], interactions = []\<rparr>"

text \<open>
  Collected 100, remitted 0 three days after completion, by an agent with rating 0.5 and
  two fraud incidents: the fraud score is \<open>0.3 + 0.2 + 0.15 + 0.08 = 0.73\<close>.
\<close>

definition shortRemittanceState :: State where
  "shortRemittanceState =
     \<lparr>users = [(1, exampleAgent\<lparr>remittanceRating := Num 0.5, fraudIncidents := 2\<rparr>)],
      orders = [(1, exampleOrder)],
      deliveries = [(0, (newDelivery 1 1 DELIVERED_PAID 0)
                          \<lparr>completedTime := Some 0, cashCollected := Some 100,
                           cashRemitted := Some 0,
                           remittanceTime := Some (3 * 24 * 60 * 60 * 1000)\<rparr>)],
      assignmentTimers = {}, monitoringIntervals = {}, outbox = [], interactions = []\<rparr>"

text \<open>
  An agent whose \<open>totalCollections\<close> is 0 (with 40 remitted in total and rating 0.5) and
  a delivery of his with 40 collected and 40 remitted at completion time: the fraud score
  is \<open>0.15\<close>.
\<close>

definition noCollectionsState :: State where
  "noCollectionsState =
     \<lparr>users = [(1, exampleAgent\<lparr>totalCollections := 0, totalRemittances := 40,
                                 remittanceRating := Num 0.5\<rparr>)],
      orders = [(1, exampleOrder)],
      deliveries = [(0, (newDelivery 1 1 DELIVERED_PAID 0)
                          \<lparr>completedTime := Some 0, cashCollected := Some 40,
                           cashRemitted := Some 40, remittanceTime := Some 0\<rparr>)],
      assignmentTimers = {}, monitoringIntervals = {}, outbox = [], interactions = []\<rparr>"

text \<open>
  \<open>twoAgentsState\<close> after \<open>assignDeliveryAgent\<close> for order 1 at time 0: a delivery in
  status \<open>ASSIGNED\<close> for each of the two agents, scheduled 30 minutes later, and no
  confirmation timer.
\<close>

definition assignedState :: State where
  "assignedState =
     twoAgentsState
       \<lparr>deliveries := deliveries twoAgentsState
          @ [(3, newDelivery 1 1 ASSIGNED (30 * 60 * 1000)),
             (4, newDelivery 1 2 ASSIGNED (30 * 60 * 1000))]\<rparr>"

text \<open>
  \<open>twoAgentsState\<close> with a delivery of order 1 for agent 1 in status \<open>ASSIGNED\<close> that
  holds a confirmation timer.
\<close>

definition timeoutState :: State where
  "timeoutState =
     twoAgentsState
       \<lparr>deliveries := deliveries twoAgentsState @ [(3, newDelivery 1 1 ASSIGNED (30 * 60 * 1000))],
        assignmentTimers := {3}\<rparr>"

text \<open>A store with the delivery \<open>remittedNotCompleted\<close> and its agent.\<close>

definition notCompletedState :: State where
  "notCompletedState =
     \<lparr>users = [(1, exampleAgent)], orders = [(1, exampleOrder)],
      deliveries = [(0, remittedNotCompleted)],
      assignmentTimers = {}, monitoringIntervals = {}, outbox = [], interactions = []\<rparr>"

text \<open>
  A second remittance request for delivery 0 (the full amount of 100, three days after
  the completion), as a change of the store.
\<close>

definition secondRemittance :: "State \<Rightarrow> State" where
  "secondRemittance s =
     snd (recordCashRemittance (\<lambda>m. True) (3 * 24 * 60 * 60 * 1000) 0 100 None s)"

text \<open>A delivery in progress, scheduled for time 0, with its monitoring interval.\<close>

definition enRouteState :: State where
  "enRouteState =
     \<lparr>users = [(1, exampleAgent)], orders = [(1, exampleOrder)],
      deliveries = [(0, newDelivery 1 1 IN_PROGRESS 0)],
      assignmentTimers = {}, monitoringIntervals = {0}, outbox = [], interactions = []\<rparr>"

text \<open>
  A monitored delivery in a given status whose estimated arrival is 20 minutes after the
  scheduled time.
\<close>

definition lateState :: "DeliveryStatus \<Rightarrow> State" where
  "lateState st =
     \<lparr>users = [(1, exampleAgent)], orders = [(1, exampleOrder)],
      deliveries = [(0, (newDelivery 1 1 st 0)\<lparr>estimatedArrival := Some (20 * 60 * 1000)\<rparr>)],
      assignmentTimers = {}, monitoringIntervals = {0}, outbox = [], interactions = []\<rparr>"

section \<open>Scoring: the agent fitness score\<close>

lemma computeFinalScore_range:
  assumes "0 \<le> d" "d \<le> 1" "0 \<le> w" "0 \<le> sr" "sr \<le> 1"
  shows "0 \<le> computeFinalScore d w sr" "computeFinalScore d w sr \<le> 1"
proof -
  define nw where "nw = max 0 (1 - w / 10)"
  have n: "0 \<le> nw" "nw \<le> 1" using assms by (simp_all add: nw_def)
  have e: "computeFinalScore d w sr = 0.4 * (1 - d) + 0.3 * nw + 0.3 * sr"
    by (simp add: computeFinalScore_def nw_def)
  show "0 \<le> computeFinalScore d w sr" unfolding e using assms n by argo
  show "computeFinalScore d w sr \<le> 1" unfolding e using assms n by argo
qed

lemma calculateAgentScore_maxWorkload:
  "score (calculateAgentScore s ord (aid, u\<lparr>maxWorkload := m\<rparr>, act))
       = score (calculateAgentScore s ord (aid, u, act))"
  by (simp add: calculateAgentScore_def Let_def)

text \<open>
  C8. The fitness score of an agent is
  \<open>0.4 * (1 - distance) + 0.3 * max(0, 1 - workload / 10) + 0.3 * successRate\<close>; the
  workload term divides by the constant 10, and the score that \<open>calculateAgentScore\<close>
  gives an agent does not depend on the agent's \<open>maxWorkload\<close>; for a distance and a
  success rate in \<open>[0, 1]\<close> and a workload count that is not negative the score lies in
  \<open>[0, 1]\<close>.
\<close>

theorem computeFinalScore_formula:
  "computeFinalScore d w sr = 0.4 * (1 - d) + 0.3 * max 0 (1 - w / 10) + 0.3 * sr
   \<and> score (calculateAgentScore s ord (aid, u\<lparr>maxWorkload := m\<rparr>, act))
       = score (calculateAgentScore s ord (aid, u, act))
   \<and> (0 \<le> d \<and> d \<le> 1 \<and> 0 \<le> w \<and> 0 \<le> sr \<and> sr \<le> 1
        \<longrightarrow> 0 \<le> computeFinalScore d w sr \<and> computeFinalScore d w sr \<le> 1)"
  using computeFinalScore_range[of d w sr]
    calculateAgentScore_maxWorkload[where s=s and ord=ord and aid=aid and u=u and m=m and act=act]
  by (simp add: computeFinalScore_def)

theorem computeFinalScore_formula_witness:
  "computeFinalScore (2 / 10) 3 (9 / 10) = 8 / 10
   \<and> 0 \<le> computeFinalScore (2 / 10) 3 (9 / 10) \<and> computeFinalScore (2 / 10) 3 (9 / 10) \<le> 1"
proof -
  have r: "(0::real) \<le> 2 / 10 \<and> (2::real) / 10 \<le> 1 \<and> (0::real) \<le> 3
           \<and> (0::real) \<le> 9 / 10 \<and> (9::real) / 10 \<le> 1"
    by simp
  from computeFinalScore_formula[where d = "2 / 10" and w = 3 and sr = "9 / 10"]
  have f: "computeFinalScore (2 / 10) 3 (9 / 10)
             = 0.4 * (1 - 2 / 10) + 0.3 * max 0 (1 - 3 / 10) + 0.3 * (9 / 10)"
    and g: "0 \<le> computeFinalScore (2 / 10) 3 (9 / 10) \<and> computeFinalScore (2 / 10) 3 (9 / 10) \<le> 1"
    using r by blast+
  have "computeFinalScore (2 / 10) 3 (9 / 10) = 8 / 10" unfolding f by simp
  with g show ?thesis by simp
qed

section \<open>Scoring: the remittance fraud score\<close>

lemma num_or_Some: "num_or (Some v) 0 = v" "v \<noteq> 0 \<Longrightarrow> num_or (Some v) 1 = v"
  by (simp_all add: num_or_def)

text \<open>
  With both times, a collected amount other than 0 and a finite rating, the score is the
  weighted sum of the four terms.
\<close>

lemma calculateFraudScore_formula:
  assumes "remittanceTime d = Some rt" and "completedTime d = Some ct"
    and "cashCollected d = Some c" and "c \<noteq> 0" and "cashRemitted d = Some m"
    and "remittanceRating agent = Num r"
  shows "calculateFraudScore d agent =
           Inr (Num (0.3 * (\<bar>c - m\<bar> / c)
                     + 0.2 * min 1 (real_of_int (rt - ct) / (60 * 60 * 1000) / 24)
                     + 0.3 * (1 - r)
                     + 0.2 * min 1 (real_of_int (fraudIncidents agent) / 5)))"
  using assms
  by (cases "r = 0")
     (simp_all add: calculateFraudScore_def remittanceDelay_def amountDiscrepancy_def
        num_or_Some js_sub_def)

text \<open>The scenarios C and D of the specification: the scores 0 and 0.61.\<close>

lemma scenario_C:
  "calculateFraudScore
     ((newDelivery 1 1 DELIVERED_PAID 0)
        \<lparr>completedTime := Some 0, cashCollected := Some 100, cashRemitted := Some 100,
         remittanceTime := Some 0\<rparr>)
     exampleAgent = Inr (Num 0)"
  by (simp add: newDelivery_def exampleAgent_def
        calculateFraudScore_formula[where rt = 0 and ct = 0 and c = 100 and m = 100 and r = 1])

lemma scenario_D:
  "calculateFraudScore
     ((newDelivery 1 1 DELIVERED_PAID 0)
        \<lparr>completedTime := Some 0, cashCollected := Some 100, cashRemitted := Some 40,
         remittanceTime := Some (3 * 24 * 60 * 60 * 1000)\<rparr>)
     (exampleAgent\<lparr>remittanceRating := Num 0.5, fraudIncidents := 2\<rparr>) = Inr (Num 0.61)"
  by (simp add: newDelivery_def exampleAgent_def
        calculateFraudScore_formula[where rt = "3 * 24 * 60 * 60 * 1000" and ct = 0 and c = 100
          and m = 40 and r = "0.5"])

text \<open>The fallback of the delay term is for an absent \<open>remittanceTime\<close>.\<close>

lemma remittanceDelay_no_remittanceTime:
  "remittanceTime d = None \<Longrightarrow> remittanceDelay d = Inr 1"
  by (simp add: remittanceDelay_def)

lemma calculateFraudScore_no_completedTime:
  "remittanceTime d = Some rt \<Longrightarrow> completedTime d = None
   \<Longrightarrow> calculateFraudScore d agent = Inl TypeError"
  by (simp add: calculateFraudScore_def remittanceDelay_def)

text \<open>
  C1. On a delivery with a recorded remittance and no \<open>completedTime\<close> the fraud score
  is not computed with a delay term of 1: the computation, and with it the verification
  run, ends in a \<open>TypeError\<close>. So does every \<open>recordCashRemittance\<close> on a delivery that
  was not completed, such as the delivery in progress of \<open>enRouteState\<close>.
\<close>

theorem calculateFraudScore_completedTime_absent:
  "calculateFraudScore remittedNotCompleted exampleAgent = Inl TypeError
   \<and> fst (verifyRemittance (\<lambda>m. True) 3600000 0
            \<lparr>users = [(1, exampleAgent)], orders = [], deliveries = [(0, remittedNotCompleted)],
             assignmentTimers = {}, monitoringIntervals = {}, outbox = [], interactions = []\<rparr>)
       = Inl TypeError
   \<and> fst (recordCashRemittance (\<lambda>m. True) 3600000 0 100 None enRouteState) = Inl TypeError"
  by (simp add: calculateFraudScore_def remittanceDelay_def remittedNotCompleted_def
      newDelivery_def verifyRemittance_def recordCashRemittance_def enRouteState_def
      flagDiscrepancy_def sendMessage_def logInteraction_def updateDelivery_def updateUser_def
      exampleAgent_def)

section \<open>The store\<close>

lemma fold_max_ge: "a \<le> fold (\<lambda>kv m. max (Suc (fst kv)) m) tbl (a::nat)"
proof (induction tbl arbitrary: a)
  case Nil
  show ?case by simp
next
  case (Cons x xs)
  have "a \<le> max (Suc (fst x)) a" by simp
  also have "\<dots> \<le> fold (\<lambda>kv m. max (Suc (fst kv)) m) xs (max (Suc (fst x)) a)"
    by (rule Cons.IH)
  finally show ?case by simp
qed

lemma fold_max_gt: "k \<in> fst ` set tbl \<Longrightarrow> k < fold (\<lambda>kv m. max (Suc (fst kv)) m) tbl (a::nat)"
proof (induction tbl arbitrary: a)
  case Nil
  then show ?case by simp
next
  case (Cons x xs)
  show ?case
  proof (cases "k = fst x")
    case True
    have "k < max (Suc (fst x)) a" using True by simp
    also have "\<dots> \<le> fold (\<lambda>kv m. max (Suc (fst kv)) m) xs (max (Suc (fst x)) a)"
      by (rule fold_max_ge)
    finally show ?thesis by simp
  next
    case False
    with Cons.prems have "k \<in> fst ` set xs" by auto
    from Cons.IH[OF this] show ?thesis by simp
  qed
qed

lemma freshId_fresh: "freshId tbl \<notin> fst ` set tbl"
  using fold_max_gt[of "freshId tbl" tbl 0] by (auto simp: freshId_def)

lemma map_of_freshId: "map_of tbl (freshId tbl) = None"
  using freshId_fresh[of tbl] by (simp add: map_of_eq_None_iff)

lemma deliveries_updateDelivery:
  "map_of (deliveries (updateDelivery k f s)) k'
     = (if k' = k then map_option f (map_of (deliveries s) k) else map_of (deliveries s) k')"
  by (simp add: updateDelivery_def map_of_map_entry split: option.splits)

lemma keys_updateDelivery:
  "fst ` set (deliveries (updateDelivery k f s)) = fst ` set (deliveries s)"
  by (simp add: updateDelivery_def dom_map_entry)

lemma updateDelivery_other [simp]:
  "users (updateDelivery k f s) = users s"
  "orders (updateDelivery k f s) = orders s"
  "assignmentTimers (updateDelivery k f s) = assignmentTimers s"
  "monitoringIntervals (updateDelivery k f s) = monitoringIntervals s"
  "outbox (updateDelivery k f s) = outbox s"
  "interactions (updateDelivery k f s) = interactions s"
  by (simp_all add: updateDelivery_def)

lemma users_updateUser:
  "map_of (users (updateUser k f s)) k'
     = (if k' = k then map_option f (map_of (users s) k) else map_of (users s) k')"
  by (simp add: updateUser_def map_of_map_entry split: option.splits)

lemma updateUser_other [simp]:
  "deliveries (updateUser k f s) = deliveries s"
  "orders (updateUser k f s) = orders s"
  "assignmentTimers (updateUser k f s) = assignmentTimers s"
  "monitoringIntervals (updateUser k f s) = monitoringIntervals s"
  "outbox (updateUser k f s) = outbox s"
  "interactions (updateUser k f s) = interactions s"
  by (simp_all add: updateUser_def)

section \<open>Agent selection\<close>

lemma findAvailableAgents_role:
  "map fst (findAvailableAgents s) = map fst (filter (\<lambda>ku. role (snd ku) = DELIVERY_AGENT) (users s))"
  by (simp add: findAvailableAgents_def comp_def)

text \<open>
  The candidates do not depend on \<open>isAvailable\<close>, \<open>isRestricted\<close> or \<open>maxWorkload\<close>.
\<close>

lemma findAvailableAgents_ignores_eligibility:
  "map fst (findAvailableAgents
      (s\<lparr>users := map (\<lambda>ku. (fst ku, (snd ku)\<lparr>isAvailable := a (fst ku),
                                               isRestricted := r (fst ku),
                                               maxWorkload := m (fst ku)\<rparr>)) (users s)\<rparr>))
   = map fst (findAvailableAgents s)"
  by (simp add: findAvailableAgents_def filter_map comp_def)

text \<open>
  C2. The query of \<open>findAvailableAgents\<close> selects by role alone: an agent who is
  unavailable, restricted (with a \<open>restrictedUntil\<close> in the future on the disputed
  delivery) and already at his \<open>maxWorkload\<close> is returned as a candidate, and
  \<open>assignDeliveryAgent\<close> creates the delivery of the next order for him, in status
  \<open>ASSIGNED\<close> (whatever the environment; the call then fails in \<open>notifyAgent\<close>, as it does
  for every candidate).
\<close>

theorem findAvailableAgents_restricted:
  "map (\<lambda>a. (fst a, isAvailable (fst (snd a)), isRestricted (fst (snd a)),
               maxWorkload (fst (snd a)), length (snd (snd a))))
       (findAvailableAgents (restrictedAgentState 5000)) = [(1, False, True, 1, 1)]
   \<and> fst (assignDeliveryAgent (\<lambda>m. True) 5000 3 (restrictedAgentState 5000)) = Inl AssignmentFailed
   \<and> map_of (deliveries (snd (assignDeliveryAgent (\<lambda>m. True) 5000 3 (restrictedAgentState 5000)))) 2
       = Some (newDelivery 3 1 ASSIGNED (5000 + 30 * 60 * 1000))
   \<and> map_of (deliveries (snd (assignDeliveryAgent (\<lambda>m. False) 5000 3 (restrictedAgentState 5000)))) 2
       = Some (newDelivery 3 1 ASSIGNED (5000 + 30 * 60 * 1000))"
  by (simp add: findAvailableAgents_def activeDeliveries_def activeStatus_def restrictedAgentState_def
        exampleAgent_def newDelivery_def assignDeliveryAgent_def sortAgents_def calculateAgentScore_def
        calculateDistance_def calculateSuccessRate_def computeFinalScore_def notifyAgent_def
        freshId_def Let_def)

section \<open>Assignment and reassignment\<close>

text \<open>
  \<open>notifyAgent\<close> fails on the record that \<open>attemptAssignment\<close> gives it, so each step of
  \<open>attemptAssignment\<close> creates the delivery of its candidate and goes on to the next
  candidate; the timer and the log entry are never reached.
\<close>

lemma notifyAgent_no_order: "notifyAgent env None u aid s = (Inl TypeError, s)"
  by (simp add: notifyAgent_def)

lemma attemptAssignment_step:
  "attemptAssignment env now oid (a # rest) s =
     (case map_of (users s) (scoredAgentId a) of
        None \<Rightarrow> attemptAssignment env now oid rest s
      | Some u \<Rightarrow>
          attemptAssignment env now oid rest
            (s\<lparr>deliveries := deliveries s
                 @ [(freshId (deliveries s),
                     newDelivery oid (scoredAgentId a) ASSIGNED (now + 30 * 60 * 1000))]\<rparr>))"
  by (simp add: notifyAgent_def Let_def split: option.splits)

text \<open>No run of \<open>attemptAssignment\<close>, and so none of \<open>assignDeliveryAgent\<close>, succeeds.\<close>

lemma attemptAssignment_fails: "fst (attemptAssignment env now oid cs s) = Inl AssignmentFailed"
  by (induction cs arbitrary: s) (simp_all add: notifyAgent_def Let_def split: option.splits)

lemma attemptAssignment_frame:
  "users (snd (attemptAssignment env now oid cs s)) = users s"
  "orders (snd (attemptAssignment env now oid cs s)) = orders s"
  "assignmentTimers (snd (attemptAssignment env now oid cs s)) = assignmentTimers s"
  "monitoringIntervals (snd (attemptAssignment env now oid cs s)) = monitoringIntervals s"
  "outbox (snd (attemptAssignment env now oid cs s)) = outbox s"
  "interactions (snd (attemptAssignment env now oid cs s)) = interactions s"
  by (induction cs arbitrary: s; simp add: notifyAgent_def Let_def split: option.splits)+

lemma attemptAssignment_env:
  "attemptAssignment env now oid cs s = attemptAssignment env' now oid cs s"
  by (induction cs arbitrary: s) (simp_all add: notifyAgent_def Let_def split: option.splits)

lemma attemptAssignment_keeps:
  "map_of (deliveries s) k = Some d
   \<Longrightarrow> map_of (deliveries (snd (attemptAssignment env now oid cs s))) k = Some d"
proof (induction cs arbitrary: s)
  case Nil
  then show ?case by simp
next
  case (Cons a rest)
  define s1 where "s1 = s\<lparr>deliveries := deliveries s
      @ [(freshId (deliveries s), newDelivery oid (scoredAgentId a) ASSIGNED (now + 30 * 60 * 1000))]\<rparr>"
  have k1: "map_of (deliveries s1) k = Some d"
    using Cons.prems by (simp add: s1_def map_add_def)
  show ?case
    unfolding attemptAssignment_step s1_def[symmetric]
    using Cons.IH[OF Cons.prems] Cons.IH[OF k1] by (simp split: option.splits)
qed

text \<open>
  Every delivery that \<open>attemptAssignment\<close> adds is a delivery of the order in status
  \<open>ASSIGNED\<close> for one of the candidates, with the default \<open>attemptCount\<close> 1.
\<close>

lemma attemptAssignment_rows:
  "map_of (deliveries (snd (attemptAssignment env now oid cs s))) k = Some nd
   \<Longrightarrow> map_of (deliveries s) k = None
   \<Longrightarrow> nd = newDelivery oid (agentId nd) ASSIGNED (now + 30 * 60 * 1000)
       \<and> agentId nd \<in> scoredAgentId ` set cs"
proof (induction cs arbitrary: s)
  case Nil
  then show ?case by simp
next
  case (Cons a rest)
  show ?case
  proof (cases "map_of (users s) (scoredAgentId a)")
    case None
    then have e: "attemptAssignment env now oid (a # rest) s = attemptAssignment env now oid rest s"
      by simp
    from Cons.IH[of s] Cons.prems show ?thesis unfolding e by simp
  next
    case (Some u)
    define row where "row = newDelivery oid (scoredAgentId a) ASSIGNED (now + 30 * 60 * 1000)"
    define s1 where "s1 = s\<lparr>deliveries := deliveries s @ [(freshId (deliveries s), row)]\<rparr>"
    have e: "attemptAssignment env now oid (a # rest) s = attemptAssignment env now oid rest s1"
      using Some by (simp add: notifyAgent_def Let_def s1_def row_def)
    have fin: "map_of (deliveries (snd (attemptAssignment env now oid rest s1))) k = Some nd"
      using Cons.prems(1) unfolding e .
    show ?thesis
    proof (cases "k = freshId (deliveries s)")
      case True
      have "map_of (deliveries s1) k = Some row"
        using True Cons.prems(2) by (simp add: s1_def map_add_def)
      from attemptAssignment_keeps[OF this, of env now oid rest] fin
      have "nd = row" by simp
      then show ?thesis by (simp add: row_def newDelivery_def)
    next
      case False
      then have "map_of (deliveries s1) k = None"
        using Cons.prems(2) by (simp add: s1_def map_add_def)
      from Cons.IH[OF fin this] show ?thesis by simp
    qed
  qed
qed

lemma candidates_set:
  "scoredAgentId ` set (sortAgents (map (calculateAgentScore s ord) (findAvailableAgents s)))
     = fst ` {ku \<in> set (users s). role (snd ku) = DELIVERY_AGENT}"
  by (auto simp: sortAgents_def findAvailableAgents_def calculateAgentScore_def Let_def image_iff)

lemma findAvailableAgents_empty:
  "findAvailableAgents s = [] \<longleftrightarrow> (\<forall>ku \<in> set (users s). role (snd ku) \<noteq> DELIVERY_AGENT)"
  by (auto simp: findAvailableAgents_def filter_empty_conv)

lemma assignDeliveryAgent_keeps:
  "map_of (deliveries s) k = Some d
   \<Longrightarrow> map_of (deliveries (snd (assignDeliveryAgent env now oid s))) k = Some d"
  by (simp add: assignDeliveryAgent_def Let_def attemptAssignment_keeps split: option.splits)

lemma assignDeliveryAgent_fails:
  "fst (assignDeliveryAgent env now oid s) =
     (case map_of (orders s) oid of
        None \<Rightarrow> Inl OrderNotFound
      | Some ord \<Rightarrow>
          if \<forall>ku \<in> set (users s). role (snd ku) \<noteq> DELIVERY_AGENT then Inl NoAgentsAvailable
          else Inl AssignmentFailed)"
  by (simp add: assignDeliveryAgent_def Let_def attemptAssignment_fails findAvailableAgents_empty
        split: option.splits)

lemma assignDeliveryAgent_frame:
  "users (snd (assignDeliveryAgent env now oid s)) = users s"
  "orders (snd (assignDeliveryAgent env now oid s)) = orders s"
  "assignmentTimers (snd (assignDeliveryAgent env now oid s)) = assignmentTimers s"
  "monitoringIntervals (snd (assignDeliveryAgent env now oid s)) = monitoringIntervals s"
  "outbox (snd (assignDeliveryAgent env now oid s)) = outbox s"
  "interactions (snd (assignDeliveryAgent env now oid s)) = interactions s"
  by (simp_all add: assignDeliveryAgent_def Let_def attemptAssignment_frame split: option.splits)

lemma assignDeliveryAgent_no_agents:
  "map_of (orders s) oid = Some ord \<Longrightarrow> \<forall>ku \<in> set (users s). role (snd ku) \<noteq> DELIVERY_AGENT
   \<Longrightarrow> assignDeliveryAgent env now oid s = (Inl NoAgentsAvailable, s)"
  using findAvailableAgents_empty[of s] by (simp add: assignDeliveryAgent_def Let_def)

text \<open>
  A delivery created by \<open>assignDeliveryAgent\<close> has the default \<open>attemptCount\<close> 1 and is
  a delivery for a user with the role \<open>DELIVERY_AGENT\<close>; the one created by
  \<open>requestRedelivery\<close> counts the deliveries of the order.
\<close>

lemma assignDeliveryAgent_rows:
  assumes "map_of (deliveries (snd (assignDeliveryAgent env now oid s))) k = Some nd"
    and "map_of (deliveries s) k = None"
  shows "orderId nd = oid \<and> status nd = ASSIGNED \<and> attemptCount nd = 1
       \<and> (\<exists>ku \<in> set (users s). role (snd ku) = DELIVERY_AGENT \<and> agentId nd = fst ku)"
proof (cases "map_of (orders s) oid")
  case None
  with assms show ?thesis by (simp add: assignDeliveryAgent_def)
next
  case (Some ord)
  define cs where "cs = sortAgents (map (calculateAgentScore s ord) (findAvailableAgents s))"
  have "map_of (deliveries (snd (attemptAssignment env now oid cs s))) k = Some nd"
    using assms Some by (simp add: assignDeliveryAgent_def Let_def cs_def split: if_splits)
  from attemptAssignment_rows[OF this assms(2)]
  have nd: "nd = newDelivery oid (agentId nd) ASSIGNED (now + 30 * 60 * 1000)"
    and a: "agentId nd \<in> scoredAgentId ` set cs"
    by simp_all
  from a have "agentId nd \<in> fst ` {ku \<in> set (users s). role (snd ku) = DELIVERY_AGENT}"
    using candidates_set[of s ord] unfolding cs_def by simp
  then have "\<exists>ku \<in> set (users s). role (snd ku) = DELIVERY_AGENT \<and> agentId nd = fst ku"
    by auto
  moreover have "orderId nd = oid \<and> status nd = ASSIGNED \<and> attemptCount nd = 1"
    by (subst nd, subst (2) nd, subst (3) nd) (simp add: newDelivery_def)
  ultimately show ?thesis by simp
qed

lemma requestRedelivery_attemptCount:
  assumes "fst (requestRedelivery env now oid s) = Inr nid"
  shows "map_option attemptCount (map_of (deliveries (snd (requestRedelivery env now oid s))) nid)
           = Some (int (length (filter (\<lambda>kd. orderId (snd kd) = oid) (deliveries s))) + 1)"
  using assms
  by (auto simp: requestRedelivery_def Let_def sendMessage_def map_add_def map_of_freshId newDelivery_def
        split: option.splits sum.splits if_splits)

lemma twoAgents_ranking:
  "map scoredAgentId (sortAgents (map (calculateAgentScore twoAgentsState (exampleOrder\<lparr>orderStatus := CONFIRMED\<rparr>))
      (findAvailableAgents twoAgentsState))) = [1, 2]"
  by (simp add: twoAgentsState_def findAvailableAgents_def activeDeliveries_def activeStatus_def
      exampleAgent_def newDelivery_def sortAgents_def calculateAgentScore_def calculateDistance_def
      calculateSuccessRate_def computeFinalScore_def Let_def)

text \<open>
  The callback of a confirmation timer runs on the record that \<open>attemptAssignment\<close>
  created: on a delivery that is still \<open>ASSIGNED\<close> it writes \<open>FAILED\<close> and ends in a
  \<open>TypeError\<close>, before any notice and without a new assignment.
\<close>

lemma assignmentTimeout_throws:
  assumes "did \<in> assignmentTimers s" and "map_of (deliveries s) did = Some d"
    and "status d = ASSIGNED" and "map_of (users s) (agentId d) = Some u"
  shows "assignmentTimeout env now did s
           = (Inl TypeError, updateDelivery did (\<lambda>x. x\<lparr>status := FAILED\<rparr>) s)"
  using assms by (simp add: assignmentTimeout_def handleUnconfirmedAssignment_def)

text \<open>
  A rejection marks the delivery \<open>FAILED\<close>, tells the agent and runs
  \<open>assignDeliveryAgent\<close> on the resulting state: a new pass over all delivery agents of
  the store, which fails like every run of \<open>assignDeliveryAgent\<close>.
\<close>

lemma handleAgentConfirmation_rejection:
  assumes d: "map_of (deliveries s) did = Some d" and a: "status d = ASSIGNED"
    and u: "map_of (users s) (agentId d) = Some u"
    and ord: "map_of (orders s) (orderId d) = Some ord"
    and sent: "env (agentPlatform u, ToAgent (agentId d), AssignmentCancelled)"
  defines "s2 \<equiv> (updateDelivery did (\<lambda>x. x\<lparr>status := FAILED\<rparr>) s)
                    \<lparr>outbox := outbox s @ [(agentPlatform u, ToAgent (agentId d), AssignmentCancelled)]\<rparr>"
  shows "snd (handleAgentConfirmation env now did False s)
           = snd (assignDeliveryAgent env now (orderId d) s2)"
    and "fst (handleAgentConfirmation env now did False s)
           = (if \<forall>ku \<in> set (users s). role (snd ku) \<noteq> DELIVERY_AGENT then Inl NoAgentsAvailable
              else Inl AssignmentFailed)"
proof -
  have f: "fst (assignDeliveryAgent env now (orderId d) s2)
             = (if \<forall>ku \<in> set (users s). role (snd ku) \<noteq> DELIVERY_AGENT then Inl NoAgentsAvailable
                else Inl AssignmentFailed)"
    unfolding assignDeliveryAgent_fails using ord by (simp add: s2_def)
  have e: "handleAgentConfirmation env now did False s
             = (case assignDeliveryAgent env now (orderId d) s2 of
                  (Inl e, s3) \<Rightarrow> (Inl e, s3) | (Inr x, s3) \<Rightarrow> (Inr False, s3))"
    using d a u ord sent
    by (simp add: handleAgentConfirmation_def handleUnconfirmedAssignment_def sendMessage_def
          s2_def Let_def split: prod.splits sum.splits)
  show "snd (handleAgentConfirmation env now did False s)
           = snd (assignDeliveryAgent env now (orderId d) s2)"
    unfolding e by (simp split: prod.splits sum.splits)
  show "fst (handleAgentConfirmation env now did False s)
           = (if \<forall>ku \<in> set (users s). role (snd ku) \<noteq> DELIVERY_AGENT then Inl NoAgentsAvailable
              else Inl AssignmentFailed)"
  proof (cases "assignDeliveryAgent env now (orderId d) s2")
    case (Pair r s3)
    with f have r: "r = (if \<forall>ku \<in> set (users s). role (snd ku) \<noteq> DELIVERY_AGENT
                         then Inl NoAgentsAvailable else Inl AssignmentFailed)"
      by simp
    show ?thesis unfolding e Pair r by simp
  qed
qed

text \<open>
  C3. Neither a rejection nor a confirmation timer hands the order to the next candidate
  of the ranked list. For order 1 of \<open>twoAgentsState\<close> the ranked list is agent 1, agent
  2. \<open>assignDeliveryAgent\<close> creates delivery 3 for agent 1, fails to notify him, creates
  delivery 4 for agent 2 in the same way and fails (\<open>Failed to assign order to any
  available agent\<close>); both deliveries stay \<open>ASSIGNED\<close> and no confirmation timer is armed.
  When agent 1 then rejects delivery 3, that delivery becomes \<open>FAILED\<close>, he is told, and
  \<open>assignDeliveryAgent\<close> runs again over all agents: it creates the deliveries 5 and 6
  for agent 1 and agent 2 and fails with the same error. The order then has three
  deliveries in status \<open>ASSIGNED\<close>, one of them for the agent who rejected, all with
  \<open>attemptCount\<close> 1, and still no timer.
\<close>

theorem rejection_runs_fresh_assignment:
  "map scoredAgentId (sortAgents (map (calculateAgentScore twoAgentsState (exampleOrder\<lparr>orderStatus := CONFIRMED\<rparr>))
      (findAvailableAgents twoAgentsState))) = [1, 2]
   \<and> assignDeliveryAgent (\<lambda>m. True) 0 1 twoAgentsState = (Inl AssignmentFailed, assignedState)
   \<and> assignmentTimers assignedState = {}
   \<and> fst (handleAgentConfirmation (\<lambda>m. True) (5 * 60 * 1000) 3 False assignedState)
       = Inl AssignmentFailed
   \<and> map (\<lambda>kd. (fst kd, orderId (snd kd), agentId (snd kd), status (snd kd), attemptCount (snd kd)))
        (deliveries (snd (handleAgentConfirmation (\<lambda>m. True) (5 * 60 * 1000) 3 False assignedState)))
      = [(0, 7, 1, COMPLETED, 1), (1, 8, 1, COMPLETED, 1), (2, 9, 1, COMPLETED, 1),
         (3, 1, 1, FAILED, 1), (4, 1, 2, ASSIGNED, 1), (5, 1, 1, ASSIGNED, 1),
         (6, 1, 2, ASSIGNED, 1)]
   \<and> outbox (snd (handleAgentConfirmation (\<lambda>m. True) (5 * 60 * 1000) 3 False assignedState))
       = [(WHATSAPP, ToAgent 1, AssignmentCancelled)]
   \<and> assignmentTimers (snd (handleAgentConfirmation (\<lambda>m. True) (5 * 60 * 1000) 3 False assignedState))
       = {}"
  by (simp add: twoAgents_ranking,
      simp add: assignedState_def twoAgentsState_def findAvailableAgents_def activeDeliveries_def
      activeStatus_def exampleAgent_def exampleOrder_def newDelivery_def sortAgents_def
      calculateAgentScore_def calculateDistance_def calculateSuccessRate_def computeFinalScore_def
      assignDeliveryAgent_def notifyAgent_def sendMessage_def agentPlatform_def freshId_def Let_def
      handleAgentConfirmation_def handleUnconfirmedAssignment_def updateDelivery_def)

section \<open>Confirmation and the confirmation timer\<close>

lemma handleUnconfirmedAssignment_not_ASSIGNED:
  "map_of (deliveries s) did = Some d \<Longrightarrow> status d \<noteq> ASSIGNED
   \<Longrightarrow> handleUnconfirmedAssignment env now did ord s = (Inr (), s)"
  by (simp add: handleUnconfirmedAssignment_def)

lemma handleAgentConfirmation_True:
  assumes d: "map_of (deliveries s) did = Some d"
    and ord: "map_of (orders s) (orderId d) = Some ord"
  shows "assignmentTimers (snd (handleAgentConfirmation env now did True s)) = assignmentTimers s - {did}"
    and "map_of (deliveries (snd (handleAgentConfirmation env now did True s))) did
           = Some (d\<lparr>status := IN_PROGRESS\<rparr>)"
    and "fst (handleAgentConfirmation env now did True s) = Inl TypeError"
  using d ord
  by (simp_all add: handleAgentConfirmation_def Let_def clearAssignmentTimer_def
        updateOrder_def deliveries_updateDelivery)

section \<open>The periodic progress check\<close>

lemma checkDeliveryProgress_COMPLETED:
  "map_of (deliveries s) did = Some d \<Longrightarrow> status d = COMPLETED
   \<Longrightarrow> checkDeliveryProgress env now did s = s\<lparr>monitoringIntervals := monitoringIntervals s - {did}\<rparr>"
  by (simp add: checkDeliveryProgress_def stopMonitoring_def)

text \<open>
  On \<open>COMPLETED\<close> the tick stops the monitor and does nothing else; on every other
  status it acts as on a delivery in progress.
\<close>

lemma tick_on_COMPLETED:
  "monitoringTick (\<lambda>m. True) (30 * 60 * 1000) 0 (lateState COMPLETED)
     = (lateState COMPLETED)\<lparr>monitoringIntervals := {}\<rparr>"
  by (simp add: monitoringTick_def checkDeliveryProgress_def lateState_def newDelivery_def
        stopMonitoring_def)

lemma tick_on_other_status:
  "st \<noteq> COMPLETED \<Longrightarrow>
   outbox (monitoringTick (\<lambda>m. True) (30 * 60 * 1000) 0 (lateState st))
     = [(WHATSAPP, ToCustomer 1, DelayCustomerNotice), (WHATSAPP, ToAgent 1, DelayAgentNotice),
        (WHATSAPP, ToAdmin, AdminDelayAlert), (TELEGRAM, ToAdmin, AdminDelayAlert),
        (EMAIL, ToAdmin, AdminDelayAlert)]
   \<and> map_option delayNotified (map_of (deliveries (monitoringTick (\<lambda>m. True) (30 * 60 * 1000) 0 (lateState st))) 0)
       = Some True
   \<and> 0 \<in> monitoringIntervals (monitoringTick (\<lambda>m. True) (30 * 60 * 1000) 0 (lateState st))"
  by (simp add: monitoringTick_def checkDeliveryProgress_def lateState_def newDelivery_def
      calculateDelay_def handleDelay_def exampleOrder_def exampleAgent_def sendMessage_def
      triggerHumanIntervention_def agentPlatform_def logInteraction_def updateDelivery_def)

text \<open>
  C6. The progress check tests the status \<open>COMPLETED\<close> only. A tick on a delivery in
  status \<open>DELIVERED_UNPAID\<close> sends the delay notices to the customer, the agent and the
  three operations channels, writes \<open>delayMinutes\<close>, \<open>delayNotified\<close> and
  \<open>humanIntervention\<close> to the delivery, and leaves the interval of the delivery in the
  map.
\<close>

theorem checkDeliveryProgress_DELIVERED_UNPAID:
  "monitoringTick (\<lambda>m. True) (30 * 60 * 1000) 0 lateDeliveredState =
     lateDeliveredState
       \<lparr>deliveries := [(0, (newDelivery 1 1 DELIVERED_UNPAID 0)
                          \<lparr>estimatedArrival := Some (20 * 60 * 1000), completedTime := Some (25 * 60 * 1000),
                           cashCollected := Some 100, delayMinutes := Some 20, delayNotified := True,
                           humanIntervention := True\<rparr>)],
        outbox := [(WHATSAPP, ToCustomer 1, DelayCustomerNotice), (WHATSAPP, ToAgent 1, DelayAgentNotice),
                   (WHATSAPP, ToAdmin, AdminDelayAlert), (TELEGRAM, ToAdmin, AdminDelayAlert),
                   (EMAIL, ToAdmin, AdminDelayAlert)],
        interactions := [(''human_intervention'', 0)]\<rparr>
   \<and> 0 \<in> monitoringIntervals (monitoringTick (\<lambda>m. True) (30 * 60 * 1000) 0 lateDeliveredState)"
  by (simp add: monitoringTick_def checkDeliveryProgress_def lateDeliveredState_def newDelivery_def
      calculateDelay_def handleDelay_def exampleOrder_def exampleAgent_def sendMessage_def
      triggerHumanIntervention_def agentPlatform_def logInteraction_def updateDelivery_def)

section \<open>Location updates and the estimated arrival\<close>

text \<open>The value under the square roots of the distance is in \<open>[0, 1]\<close> for all coordinates.\<close>

lemma hav_id: 
  fixes x y :: real
  shows "sin ((y - x) / 2) * sin ((y - x) / 2) + cos x * cos y = cos ((x + y) / 2) * cos ((x + y) / 2)"
proof -
  have e1: "2 * ((y - x) / 2) = y - x" and e2: "2 * ((x + y) / 2) = x + y"
    by simp_all
  have s: "sin ((y - x) / 2) * sin ((y - x) / 2) = (1 - cos (y - x)) / 2"
    using cos_double_sin[of "(y - x) / 2"] unfolding e1 power2_eq_square by argo
  have c: "cos ((x + y) / 2) * cos ((x + y) / 2) = (1 + cos (x + y)) / 2"
    using cos_double_cos[of "(x + y) / 2"] unfolding e2 power2_eq_square by argo
  show ?thesis unfolding s c by (simp add: cos_diff cos_add field_simps)
qed

lemma haversine_range: "0 \<le> haversine p q \<and> haversine p q \<le> 1"
proof -
  define x where "x = deg2rad (latitude p)"
  define y where "y = deg2rad (latitude q)"
  define t where "t = sin (deg2rad (longitude q - longitude p) / 2) * sin (deg2rad (longitude q - longitude p) / 2)"
  define A where "A = sin ((y - x) / 2) * sin ((y - x) / 2)"
  define B where "B = cos ((x + y) / 2) * cos ((x + y) / 2)"
  have d: "deg2rad (latitude q - latitude p) = y - x"
    by (simp add: x_def y_def deg2rad_def left_diff_distrib)
  have h: "haversine p q = A + cos x * cos y * t"
    by (simp add: haversine_def d x_def[symmetric] y_def[symmetric] t_def A_def Let_def mult.assoc)
  have cc: "cos x * cos y = B - A" using hav_id[of y x] by (simp add: A_def B_def)
  have t01: "0 \<le> t" "t \<le> 1" 
    using sin_cos_squared_add[of "deg2rad (longitude q - longitude p) / 2"]
    by (simp_all add: t_def power2_eq_square) (smt (verit) zero_le_square)
  have A01: "0 \<le> A" "A \<le> 1"
    using sin_cos_squared_add[of "(y - x) / 2"]
    by (simp_all add: A_def power2_eq_square) (smt (verit) zero_le_square)
  have B01: "0 \<le> B" "B \<le> 1"
    using sin_cos_squared_add[of "(x + y) / 2"]
    by (simp_all add: B_def power2_eq_square) (smt (verit) zero_le_square)
  have e: "haversine p q = (1 - t) * A + t * B" unfolding h cc by (simp add: algebra_simps)
  have "0 \<le> (1 - t) * A" "0 \<le> t * B" using t01 A01 B01 by simp_all
  moreover have "(1 - t) * A \<le> (1 - t) * 1" "t * B \<le> t * 1" 
    using t01 A01 B01 by (intro mult_left_mono; simp)+
  ultimately show ?thesis unfolding e by simp
qed

lemma js_atan2_nonneg: "0 \<le> y \<Longrightarrow> 0 \<le> js_atan2 y x"
proof -
  have "0 \<le> arctan (y / x) + pi"
    using arctan_lbound[of "y / x"] pi_gt_zero by linarith
  moreover have "0 < x \<Longrightarrow> 0 \<le> y \<Longrightarrow> 0 \<le> arctan (y / x)"
    by (simp add: zero_le_divide_iff)
  moreover assume "0 \<le> y"
  ultimately show ?thesis
    unfolding js_atan2_def by auto
qed

lemma calculateDistance_monitoring_nonneg: "0 \<le> calculateDistance_monitoring p q"
proof -
  have "0 \<le> sqrt (haversine p q)" using haversine_range[of p q] by simp
  then have "0 \<le> js_atan2 (sqrt (haversine p q)) (sqrt (1 - haversine p q))"
    by (rule js_atan2_nonneg)
  then show ?thesis by (simp add: calculateDistance_monitoring_def Let_def)
qed

lemma getHours_nonneg: "0 \<le> getHours t"
  by (simp add: getHours_def)

text \<open>The estimated arrival is the clock value plus the whole hours of travel at 30 km/h.\<close>

lemma calculateETA_closed:
  "calculateETA now cur dest = now + \<lfloor>calculateDistance_monitoring cur dest / 30\<rfloor> * 3600000"
proof -
  define x where "x = calculateDistance_monitoring cur dest / 30"
  have x: "0 \<le> x" using calculateDistance_monitoring_nonneg[of cur dest] by (simp add: x_def)
  have "0 \<le> real_of_int (getHours now) + x" using x getHours_nonneg[of now] by simp
  then have "js_trunc (real_of_int (getHours now) + x) = \<lfloor>real_of_int (getHours now) + x\<rfloor>"
    by (simp add: js_trunc_def)
  also have "\<dots> = getHours now + \<lfloor>x\<rfloor>" by (simp add: add.commute)
  finally show ?thesis
    by (simp add: calculateETA_def setHours_def Let_def x_def[symmetric])
qed

lemma calculateETA_shift:
  "calculateETA now' cur dest = calculateETA now cur dest + (now' - now)"
  by (simp add: calculateETA_closed)

lemma calculateETA_same_point: "calculateETA now p p = now"
  by (simp add: calculateETA_closed calculateDistance_monitoring_def haversine_def js_atan2_def deg2rad_def)

lemma handleDelay_notified:
  "delayNotified d \<Longrightarrow> handleDelay env did d ord ag delay s = (Inr (), s)"
  by (simp add: handleDelay_def)

lemma handleDelay_frame:
  "users (snd (handleDelay env did d ord ag delay s)) = users s"
  "orders (snd (handleDelay env did d ord ag delay s)) = orders s"
  "assignmentTimers (snd (handleDelay env did d ord ag delay s)) = assignmentTimers s"
  "monitoringIntervals (snd (handleDelay env did d ord ag delay s)) = monitoringIntervals s"
  by (auto simp: handleDelay_def sendMessage_def triggerHumanIntervention_def logInteraction_def
        split: option.splits)

lemma handleDelay_deliveries:
  "deliveries (snd (handleDelay env did d ord ag delay s))
     = (if \<not> delayNotified d \<and> fst (handleDelay env did d ord ag delay s) = Inr ()
        then AList.map_entry did
               (\<lambda>x. x\<lparr>delayMinutes := Some delay, delayNotified := True,
                       humanIntervention := True\<rparr>) (deliveries s)
        else deliveries s)"
  by (auto simp: handleDelay_def sendMessage_def triggerHumanIntervention_def logInteraction_def
        updateDelivery_def split: option.splits)

text \<open>
  On a record without agent, as \<open>updateLocation\<close> passes it, \<open>handleDelay\<close> tells the
  customer and ends in a \<open>TypeError\<close>: it never writes the delay to the delivery.
\<close>

lemma handleDelay_no_agent:
  "handleDelay env did d (Some ord) None delay s =
     (if delayNotified d then (Inr (), s)
      else if env (platform ord, ToCustomer (orderId d), DelayCustomerNotice)
      then (Inl TypeError, s\<lparr>outbox := outbox s @ [(platform ord, ToCustomer (orderId d), DelayCustomerNotice)]\<rparr>)
      else (Inl SendFailed, s))"
  by (simp add: handleDelay_def sendMessage_def)

lemma handleDelay_no_agent_deliveries:
  "deliveries (snd (handleDelay env did d (Some ord) None delay s)) = deliveries s"
  by (simp add: handleDelay_no_agent)

text \<open>
  C9, as stated, fails. Two location updates with the same coordinates, one minute apart
  (no tick between them), on a delivery scheduled for time 0: the first stores the
  estimated arrival \<open>5 min\<close> and computes a delay of 5 minutes, the second stores the
  estimated arrival \<open>6 min\<close> and computes a delay of 6 minutes.
\<close>

theorem updateLocation_twice_differs:
  "map_option estimatedArrival
     (map_of (deliveries (snd (updateLocation (\<lambda>m. True) (5 * 60 * 1000) 0
         \<lparr>latitude = 6.5, longitude = 3.4\<rparr> enRouteState))) 0)
     = Some (Some (5 * 60 * 1000))
   \<and> map_option estimatedArrival
     (map_of (deliveries (snd (updateLocation (\<lambda>m. True) (6 * 60 * 1000) 0
         \<lparr>latitude = 6.5, longitude = 3.4\<rparr>
         (snd (updateLocation (\<lambda>m. True) (5 * 60 * 1000) 0
            \<lparr>latitude = 6.5, longitude = 3.4\<rparr> enRouteState))))) 0)
     = Some (Some (6 * 60 * 1000))
   \<and> calculateDelay 0 (calculateETA (5 * 60 * 1000) \<lparr>latitude = 6.5, longitude = 3.4\<rparr>
                          \<lparr>latitude = 6.5, longitude = 3.4\<rparr>) = 5
   \<and> calculateDelay 0 (calculateETA (6 * 60 * 1000) \<lparr>latitude = 6.5, longitude = 3.4\<rparr>
                          \<lparr>latitude = 6.5, longitude = 3.4\<rparr>) = 6"
  by (simp add: updateLocation_def enRouteState_def exampleOrder_def exampleAgent_def newDelivery_def
      calculateETA_same_point calculateDelay_def updateDelivery_def Let_def)

text \<open>
  C9, amended. The estimated arrival that \<open>updateLocation\<close> stores is computed from the
  clock: after two calls with the same coordinates the second estimated arrival is the
  first plus the time that passed between the calls. When both calls read the same clock
  value (and messages are delivered alike), the delivery record after the second call,
  with its \<open>estimatedArrival\<close> and \<open>delayMinutes\<close>, equals the record after the first.
\<close>

theorem updateLocation_twice:
  fixes env :: Env and now now' :: time and loc :: Location
  assumes d: "map_of (deliveries s) did = Some d"
    and ord: "map_of (orders s) (orderId d) = Some ord"
    and dest: "deliveryLocation ord = Some dest"
  defines "s1 \<equiv> snd (updateLocation env now did loc s)"
  defines "s2 \<equiv> snd (updateLocation env now' did loc s1)"
  shows "\<exists>d1 d2. map_of (deliveries s1) did = Some d1 \<and> map_of (deliveries s2) did = Some d2
      \<and> estimatedArrival d1 = Some (calculateETA now loc dest)
      \<and> estimatedArrival d2 = Some (calculateETA now loc dest + (now' - now))
      \<and> (now' = now \<longrightarrow> d2 = d1)"
proof -
  define eta where "eta = calculateETA now loc dest"
  define delay where "delay = calculateDelay (scheduledTime d) eta"
  define upd where "upd = (\<lambda>t e (x::Delivery). x\<lparr>currentLocation := Some loc, lastLocationUpdate := Some t,
                                     estimatedArrival := Some (e::time)\<rparr>)"
  define sU where "sU = updateDelivery did (upd now eta) s"
  have first: "updateLocation env now did loc s
                 = (if 15 < delay then handleDelay env did d (Some ord) None delay sU else (Inr (), sU))"
    using d ord dest
    by (simp add: updateLocation_def Let_def eta_def delay_def sU_def upd_def)
  have dU: "map_of (deliveries sU) did = Some (upd now eta d)"
    using d by (simp add: sU_def deliveries_updateDelivery)
  have fU: "orders sU = orders s" by (simp add: sU_def)
  \<comment> \<open>the delivery after the first call\<close>
  define d1 where "d1 = upd now eta d"
  have del1: "deliveries s1 = deliveries sU"
    unfolding s1_def first by (simp add: handleDelay_no_agent_deliveries)
  have m1: "map_of (deliveries s1) did = Some d1"
    unfolding del1 d1_def by (rule dU)
  have f1: "orders s1 = orders s"
    unfolding s1_def first using fU by (simp add: handleDelay_frame)
  have e1: "estimatedArrival d1 = Some eta" and o1: "orderId d1 = orderId d"
    and t1: "scheduledTime d1 = scheduledTime d"
    by (simp_all add: d1_def upd_def)
  \<comment> \<open>the second call\<close>
  define eta' where "eta' = calculateETA now' loc dest"
  define delay' where "delay' = calculateDelay (scheduledTime d) eta'"
  define sU' where "sU' = updateDelivery did (upd now' eta') s1"
  have second: "updateLocation env now' did loc s1
                 = (if 15 < delay' then handleDelay env did d1 (Some ord) None delay' sU' else (Inr (), sU'))"
    using m1 ord dest f1 o1 t1
    by (simp add: updateLocation_def Let_def eta'_def delay'_def sU'_def upd_def)
  have dU': "map_of (deliveries sU') did = Some (upd now' eta' d1)"
    using m1 by (simp add: sU'_def deliveries_updateDelivery)
  define d2 where "d2 = upd now' eta' d1"
  have del2: "deliveries s2 = deliveries sU'"
    unfolding s2_def second by (simp add: handleDelay_no_agent_deliveries)
  have m2: "map_of (deliveries s2) did = Some d2"
    unfolding del2 d2_def by (rule dU')
  have e2: "estimatedArrival d2 = Some eta'"
    by (simp add: d2_def upd_def)
  have shift: "eta' = eta + (now' - now)"
    unfolding eta'_def eta_def by (rule calculateETA_shift)
  have same: "d2 = d1" if "now' = now"
    using that by (simp add: d2_def d1_def upd_def eta'_def eta_def)
  from m1 m2 e1 e2 shift same show ?thesis
    unfolding eta_def by blast
qed

theorem updateLocation_twice_witness:
  "map_of (deliveries enRouteState) 0 = Some (newDelivery 1 1 IN_PROGRESS 0)
   \<and> (\<exists>d1 d2. map_of (deliveries (snd (updateLocation (\<lambda>m. True) (15 * 60 * 1000) 0
           \<lparr>latitude = 6.5, longitude = 3.4\<rparr> enRouteState))) 0 = Some d1
       \<and> map_of (deliveries (snd (updateLocation (\<lambda>m. True) (16 * 60 * 1000) 0
           \<lparr>latitude = 6.5, longitude = 3.4\<rparr>
           (snd (updateLocation (\<lambda>m. True) (15 * 60 * 1000) 0
              \<lparr>latitude = 6.5, longitude = 3.4\<rparr> enRouteState))))) 0 = Some d2
       \<and> estimatedArrival d1 = Some (15 * 60 * 1000)
       \<and> estimatedArrival d2 = Some (16 * 60 * 1000))"
proof -
  have h1: "map_of (deliveries enRouteState) 0 = Some (newDelivery 1 1 IN_PROGRESS 0)"
    by (simp add: enRouteState_def)
  have h2: "map_of (orders enRouteState) (orderId (newDelivery 1 1 IN_PROGRESS 0)) = Some exampleOrder"
    by (simp add: enRouteState_def newDelivery_def)
  have h3: "deliveryLocation exampleOrder = Some \<lparr>latitude = 6.5, longitude = 3.4\<rparr>"
    by (simp add: exampleOrder_def)
  from updateLocation_twice[OF h1 h2 h3, where env = "\<lambda>m. True" and now = "15 * 60 * 1000"
      and now' = "16 * 60 * 1000" and loc = "\<lparr>latitude = 6.5, longitude = 3.4\<rparr>"]
  show ?thesis using h1 by (simp add: calculateETA_same_point)
qed

section \<open>Remittance verification\<close>

lemma js_ge_not_lt: "js_ge x c \<Longrightarrow> \<not> js_lt x c"
  by (cases x) simp_all

lemma handleFraudSuspicion_result:
  "handleFraudSuspicion env now did d s =
     (let s2 = updateDelivery did
                 (\<lambda>x. x\<lparr>status := PAYMENT_DISPUTED, restrictedUntil := Some (now + 7 * 24 * 60 * 60 * 1000)\<rparr>)
                 (updateUser (agentId d)
                    (\<lambda>u. u\<lparr>isRestricted := True, fraudIncidents := fraudIncidents u + 1\<rparr>) s)
      in if env (EMAIL, ToFinance, FraudAlert)
         then (Inr (), s2\<lparr>outbox := outbox s @ [(EMAIL, ToFinance, FraudAlert)],
                          interactions := interactions s @ [(''fraud_alert'', did)]\<rparr>)
         else (Inl SendFailed, s2))"
  by (simp add: handleFraudSuspicion_def RESTRICTION_DURATION_def sendMessage_def logInteraction_def Let_def)

text \<open>
  C4, as stated, fails: with a fraud score of 0.73 and a finance mail that cannot be
  sent, the verification run throws (after it has marked the delivery
  \<open>PAYMENT_DISPUTED\<close>).
\<close>

theorem verifyRemittance_fraud_path_throws:
  "fst (verifyRemittance (\<lambda>m. False) (3 * 24 * 60 * 60 * 1000) 0 shortRemittanceState) = Inl SendFailed
   \<and> map_option (\<lambda>d. (fraudScore d, status d)) (map_of (deliveries (snd (verifyRemittance (\<lambda>m. False) (3 * 24 * 60 * 60 * 1000) 0 shortRemittanceState))) 0)
      = Some (Some (Num 0.73), PAYMENT_DISPUTED)"
  by (simp add: verifyRemittance_def shortRemittanceState_def newDelivery_def exampleAgent_def
      calculateFraudScore_def remittanceDelay_def amountDiscrepancy_def num_or_def js_sub_def
      FRAUD_SCORE_THRESHOLD_def handleFraudSuspicion_def sendMessage_def updateDelivery_def
      updateUser_def detectFraudPatterns_def Let_def)

text \<open>
  C4, amended. In every verification run with a fraud score of at least 0.7 the agent is
  marked restricted and his \<open>fraudIncidents\<close> grow by exactly 1, the delivery gets the
  status \<open>PAYMENT_DISPUTED\<close> and a \<open>restrictedUntil\<close> seven days after the time of the
  run, and the alert is sent to the finance address. The run returns normally when that
  message can be sent; when it cannot, the run throws the send error after these writes.
\<close>

theorem verifyRemittance_fraud_path:
  fixes env :: Env and now :: time
  assumes d: "map_of (deliveries s) did = Some d"
    and u: "map_of (users s) (agentId d) = Some agent"
    and sc: "calculateFraudScore d agent = Inr sc"
    and hi: "js_ge sc 0.7"
  defines "r \<equiv> verifyRemittance env now did s"
  shows "map_of (users (snd r)) (agentId d)
           = Some (agent\<lparr>isRestricted := True, fraudIncidents := fraudIncidents agent + 1\<rparr>)
    \<and> map_of (deliveries (snd r)) did
           = Some (d\<lparr>fraudScore := Some sc,
                     fraudFlags := (if detectFraudPatterns d \<noteq> [] then Some (detectFraudPatterns d)
                                    else fraudFlags d),
                     remittanceVerified := False, status := PAYMENT_DISPUTED,
                     restrictedUntil := Some (now + 7 * 24 * 60 * 60 * 1000)\<rparr>)
    \<and> (if env (EMAIL, ToFinance, FraudAlert)
        then fst r = Inr () \<and> outbox (snd r) = outbox s @ [(EMAIL, ToFinance, FraudAlert)]
        else fst r = Inl SendFailed \<and> outbox (snd r) = outbox s)"
proof -
  have lt: "\<not> js_lt sc 0.7" using hi by (rule js_ge_not_lt)
  have r: "r = handleFraudSuspicion env now did d
                 (updateDelivery did
                    (\<lambda>x. x\<lparr>fraudScore := Some sc,
                            fraudFlags := (if detectFraudPatterns d \<noteq> [] then Some (detectFraudPatterns d)
                                           else fraudFlags x),
                            remittanceVerified := False\<rparr>) s)"
    using d u sc hi lt by (simp add: r_def verifyRemittance_def FRAUD_SCORE_THRESHOLD_def Let_def)
  show ?thesis
    unfolding r handleFraudSuspicion_result Let_def using d u
    by (simp add: deliveries_updateDelivery users_updateUser)
qed

lemma shortRemittance_score:
  "calculateFraudScore
     ((newDelivery 1 1 DELIVERED_PAID 0)
        \<lparr>completedTime := Some 0, cashCollected := Some 100, cashRemitted := Some 0,
         remittanceTime := Some (3 * 24 * 60 * 60 * 1000)\<rparr>)
     (exampleAgent\<lparr>remittanceRating := Num 0.5, fraudIncidents := 2\<rparr>) = Inr (Num 0.73)"
  by (simp add: newDelivery_def exampleAgent_def calculateFraudScore_def remittanceDelay_def
      amountDiscrepancy_def num_or_def js_sub_def)

theorem verifyRemittance_fraud_path_witness:
  "map_of (users (snd (verifyRemittance (\<lambda>m. True) (3 * 24 * 60 * 60 * 1000) 0 shortRemittanceState))) 1
     = Some (exampleAgent\<lparr>remittanceRating := Num 0.5, fraudIncidents := 3, isRestricted := True\<rparr>)
   \<and> fst (verifyRemittance (\<lambda>m. True) (3 * 24 * 60 * 60 * 1000) 0 shortRemittanceState) = Inr ()
   \<and> outbox (snd (verifyRemittance (\<lambda>m. True) (3 * 24 * 60 * 60 * 1000) 0 shortRemittanceState))
       = [(EMAIL, ToFinance, FraudAlert)]"
proof -
  define d where "d = (newDelivery 1 1 DELIVERED_PAID 0)
        \<lparr>completedTime := Some 0, cashCollected := Some 100, cashRemitted := Some 0,
         remittanceTime := Some (3 * 24 * 60 * 60 * 1000)\<rparr>"
  define agent where "agent = exampleAgent\<lparr>remittanceRating := Num 0.5, fraudIncidents := 2\<rparr>"
  have ag: "agentId d = 1" by (simp add: d_def newDelivery_def)
  have h1: "map_of (deliveries shortRemittanceState) 0 = Some d"
    by (simp add: shortRemittanceState_def d_def)
  have h2: "map_of (users shortRemittanceState) (agentId d) = Some agent"
    by (simp add: shortRemittanceState_def ag agent_def)
  have h3: "calculateFraudScore d agent = Inr (Num 0.73)"
    unfolding d_def agent_def by (rule shortRemittance_score)
  have h4: "js_ge (Num 0.73) 0.7" by simp
  from verifyRemittance_fraud_path[OF h1 h2 h3 h4, where env = "\<lambda>m. True"
      and now = "3 * 24 * 60 * 60 * 1000"]
  show ?thesis
    by (simp add: ag agent_def exampleAgent_def shortRemittanceState_def)
qed

text \<open>
  \<open>updateAgentRating\<close> writes a finite rating and throws on any other; it never touches
  a delivery.
\<close>

lemma updateAgentRating_finite:
  "js_min1 (js_div (totalRemittances agent) (totalCollections agent)) = Num r
   \<Longrightarrow> updateAgentRating aid agent s
         = (Inr (), updateUser aid (\<lambda>u. u\<lparr>remittanceRating := Num r\<rparr>) s)"
  by (simp add: updateAgentRating_def)

lemma updateAgentRating_not_finite:
  "totalCollections agent = 0 \<Longrightarrow> totalRemittances agent \<le> 0
   \<Longrightarrow> updateAgentRating aid agent s = (Inl InvalidValue, s)"
  by (simp add: updateAgentRating_def js_div_def)

lemma updateAgentRating_deliveries:
  "deliveries (snd (updateAgentRating aid agent s)) = deliveries s"
  by (simp add: updateAgentRating_def Let_def split: jsnum.splits)

lemma verifyRemittance_unfold:
  assumes d: "map_of (deliveries s) did = Some d"
    and u: "map_of (users s) (agentId d) = Some agent"
    and sc: "calculateFraudScore d agent = Inr sc"
  shows "verifyRemittance env now did s =
     (let s1 = updateDelivery did
                 (\<lambda>x. x\<lparr>fraudScore := Some sc,
                         fraudFlags := (if detectFraudPatterns d \<noteq> [] then Some (detectFraudPatterns d)
                                        else fraudFlags x),
                         remittanceVerified := js_lt sc 0.7\<rparr>) s
      in if js_ge sc 0.7 then handleFraudSuspicion env now did d s1
         else updateAgentRating (agentId d) agent s1)"
  using d u sc by (simp add: verifyRemittance_def FRAUD_SCORE_THRESHOLD_def Let_def)

text \<open>
  Below the threshold the run verifies the remittance and writes the new rating, when
  that is finite.
\<close>

lemma verifyRemittance_rating:
  assumes d: "map_of (deliveries s) did = Some d"
    and u: "map_of (users s) (agentId d) = Some agent"
    and sc: "calculateFraudScore d agent = Inr sc"
    and lo: "\<not> js_ge sc 0.7"
    and fin: "js_min1 (js_div (totalRemittances agent) (totalCollections agent)) = Num r"
  shows "fst (verifyRemittance env now did s) = Inr ()"
    and "map_of (users (snd (verifyRemittance env now did s))) (agentId d)
           = Some (agent\<lparr>remittanceRating :=
                js_min1 (js_div (totalRemittances agent) (totalCollections agent))\<rparr>)"
    and "map_of (deliveries (snd (verifyRemittance env now did s))) did
           = Some (d\<lparr>fraudScore := Some sc,
                     fraudFlags := (if detectFraudPatterns d \<noteq> [] then Some (detectFraudPatterns d)
                                    else fraudFlags d),
                     remittanceVerified := js_lt sc 0.7\<rparr>)"
  unfolding verifyRemittance_unfold[OF d u sc] Let_def updateAgentRating_finite[OF fin]
  using d u lo fin by (simp_all add: users_updateUser deliveries_updateDelivery)

lemma js_div_nonzero: "b \<noteq> 0 \<Longrightarrow> js_min1 (js_div a b) = Num (min 1 (a / b))"
  by (simp add: js_div_def)

lemma js_div_zero:
  "js_min1 (js_div a 0) = (if a = 0 then NaN else if 0 < a then Num 1 else NInf)"
  by (simp add: js_div_def)

text \<open>
  C5. \<open>updateAgentRating\<close> divides by \<open>totalCollections\<close> without a test: for an agent
  with \<open>totalCollections = 0\<close>, \<open>totalRemittances = 40\<close> and rating 0.5, a verification
  run with fraud score 0.15 sets \<open>remittanceVerified\<close> and changes the rating to 1
  (\<open>Math.min(1, 40 / 0)\<close>).
\<close>

theorem updateAgentRating_zero_collections:
  "verifyRemittance (\<lambda>m. True) 0 0 noCollectionsState =
     (Inr (), noCollectionsState
        \<lparr>users := [(1, exampleAgent\<lparr>totalCollections := 0, totalRemittances := 40,
                                     remittanceRating := Num 1\<rparr>)],
         deliveries := [(0, (newDelivery 1 1 DELIVERED_PAID 0)
                          \<lparr>completedTime := Some 0, cashCollected := Some 40, cashRemitted := Some 40,
                           remittanceTime := Some 0, fraudScore := Some (Num 0.15),
                           remittanceVerified := True\<rparr>)]\<rparr>)"
  by (simp add: verifyRemittance_def noCollectionsState_def newDelivery_def exampleAgent_def
      calculateFraudScore_def remittanceDelay_def amountDiscrepancy_def num_or_def js_sub_def
      FRAUD_SCORE_THRESHOLD_def updateAgentRating_def js_div_def updateDelivery_def
      updateUser_def detectFraudPatterns_def Let_def)

section \<open>Invariants of call histories\<close>

subsection \<open>No delivery is both disputed and verified\<close>

lemma list_all_map_entry:
  "list_all (\<lambda>kd. P (snd kd)) xs \<Longrightarrow> (\<And>v. map_of xs k = Some v \<Longrightarrow> P (f v))
   \<Longrightarrow> list_all (\<lambda>kd. P (snd kd)) (AList.map_entry k f xs)"
  by (induction xs) (auto split: if_splits)

lemma ndv_updateDelivery:
  "noDisputedVerified s \<Longrightarrow> (\<And>d. map_of (deliveries s) k = Some d \<Longrightarrow> consistentDispute (f d))
   \<Longrightarrow> noDisputedVerified (updateDelivery k f s)"
  unfolding noDisputedVerified_def updateDelivery_def
  by (simp add: list_all_map_entry)

lemma ndv_cong: "deliveries s' = deliveries s \<Longrightarrow> noDisputedVerified s' = noDisputedVerified s"
  by (simp add: noDisputedVerified_def)

lemma sendMessage_deliveries [simp]: "deliveries (snd (sendMessage env m s)) = deliveries s"
  by (simp add: sendMessage_def)

lemma logInteraction_deliveries [simp]: "deliveries (logInteraction i s) = deliveries s"
  by (simp add: logInteraction_def)

lemma ndv_attemptAssignment:
  "noDisputedVerified s \<Longrightarrow> noDisputedVerified (snd (attemptAssignment env now oid cs s))"
proof (induction cs arbitrary: s)
  case Nil
  then show ?case by simp
next
  case (Cons a rest)
  define s1 where "s1 = s\<lparr>deliveries := deliveries s
      @ [(freshId (deliveries s), newDelivery oid (scoredAgentId a) ASSIGNED (now + 30 * 60 * 1000))]\<rparr>"
  have n1: "noDisputedVerified s1"
    using Cons.prems
    by (simp add: s1_def noDisputedVerified_def consistentDispute_def newDelivery_def)
  show ?case
    unfolding attemptAssignment_step s1_def[symmetric]
    using Cons.IH[OF Cons.prems] Cons.IH[OF n1] by (simp split: option.splits)
qed

lemma ndv_assignDeliveryAgent:
  "noDisputedVerified s \<Longrightarrow> noDisputedVerified (snd (assignDeliveryAgent env now oid s))"
  by (simp add: assignDeliveryAgent_def Let_def ndv_attemptAssignment split: option.splits)

lemma ndv_assignDeliveryAgent_pair:
  "assignDeliveryAgent env now oid s = (r, s') \<Longrightarrow> noDisputedVerified s \<Longrightarrow> noDisputedVerified s'"
  using ndv_assignDeliveryAgent[of s env now oid] by simp

lemma ndv_outbox: "noDisputedVerified (s\<lparr>outbox := x\<rparr>) = noDisputedVerified s"
  by (simp add: noDisputedVerified_def)

lemma ndv_sendMessage: "noDisputedVerified (snd (sendMessage env m s)) = noDisputedVerified s"
  by (simp add: noDisputedVerified_def)

lemma ndv_logInteraction: "noDisputedVerified (logInteraction i s) = noDisputedVerified s"
  by (simp add: noDisputedVerified_def)

lemma ndv_handleUnconfirmedAssignment:
  assumes "noDisputedVerified s"
  shows "noDisputedVerified (snd (handleUnconfirmedAssignment env now did ord s))"
proof (cases "map_of (deliveries s) did")
  case None
  then show ?thesis using assms by (simp add: handleUnconfirmedAssignment_def)
next
  case (Some cur)
  define s1 where "s1 = updateDelivery did (\<lambda>d. d\<lparr>status := FAILED\<rparr>) s"
  have n1: "noDisputedVerified s1" unfolding s1_def
    by (rule ndv_updateDelivery[OF assms]) (simp add: consistentDispute_def)
  show ?thesis
  proof (cases "status cur = ASSIGNED")
    case False
    then show ?thesis using Some assms by (simp add: handleUnconfirmedAssignment_def)
  next
    case True
    show ?thesis
    proof (cases "map_of (users s1) (agentId cur)")
      case None
      then show ?thesis using Some True n1
        by (simp add: handleUnconfirmedAssignment_def s1_def[symmetric])
    next
      case u: (Some u)
      show ?thesis
      proof (cases ord)
        case None
        then show ?thesis using Some True u n1
          by (simp add: handleUnconfirmedAssignment_def s1_def[symmetric])
      next
        case o: (Some order)
        define m where "m = (agentPlatform u, ToAgent (agentId cur), AssignmentCancelled)"
        show ?thesis
        proof (cases "env m")
          case False
          then show ?thesis using Some True u o n1
            by (simp add: handleUnconfirmedAssignment_def s1_def[symmetric] m_def[symmetric]
                  sendMessage_def)
        next
          case e: True
          have n2: "noDisputedVerified (s1\<lparr>outbox := outbox s1 @ [m]\<rparr>)"
            using n1 by (simp add: ndv_outbox)
          have "snd (handleUnconfirmedAssignment env now did ord s)
                  = snd (assignDeliveryAgent env now (orderId cur) (s1\<lparr>outbox := outbox s1 @ [m]\<rparr>))"
            using Some True u o e
            by (simp add: handleUnconfirmedAssignment_def s1_def[symmetric] m_def[symmetric]
                  sendMessage_def split: prod.splits sum.splits)
          then show ?thesis using ndv_assignDeliveryAgent[OF n2] by simp
        qed
      qed
    qed
  qed
qed

lemma ndv_lookup:
  "noDisputedVerified s \<Longrightarrow> map_of (deliveries s) k = Some d \<Longrightarrow> consistentDispute d"
  unfolding noDisputedVerified_def list_all_iff using map_of_SomeD by fastforce

lemma ndv_updateDelivery_pres:
  "noDisputedVerified s \<Longrightarrow> (\<And>d. consistentDispute d \<Longrightarrow> consistentDispute (f d))
   \<Longrightarrow> noDisputedVerified (updateDelivery k f s)"
  by (rule ndv_updateDelivery) (auto dest: ndv_lookup)

lemma ndv_updateUser [simp]: "noDisputedVerified (updateUser k f s) = noDisputedVerified s"
  by (simp add: noDisputedVerified_def updateUser_def)

lemma ndv_updateOrder [simp]: "noDisputedVerified (updateOrder k f s) = noDisputedVerified s"
  by (simp add: noDisputedVerified_def updateOrder_def)

lemma ndv_handleAgentConfirmation:
  assumes "noDisputedVerified s"
  shows "noDisputedVerified (snd (handleAgentConfirmation env now did confirmed s))"
proof (cases confirmed)
  case False
  have "\<And>ord. noDisputedVerified (snd (handleUnconfirmedAssignment env now did ord s))"
    by (rule ndv_handleUnconfirmedAssignment[OF assms])
  then show ?thesis using False assms
    by (auto simp: handleAgentConfirmation_def split: option.splits prod.splits sum.splits)
       (metis snd_conv)+
next
  case True
  have "noDisputedVerified (updateDelivery did (\<lambda>d. d\<lparr>status := IN_PROGRESS\<rparr>) s)"
    by (rule ndv_updateDelivery_pres[OF assms]) (simp add: consistentDispute_def)
  then show ?thesis using True assms
    by (simp add: handleAgentConfirmation_def Let_def clearAssignmentTimer_def
          noDisputedVerified_def updateOrder_def split: option.splits)
qed

lemma ndv_handleDelay:
  assumes "noDisputedVerified s"
  shows "noDisputedVerified (snd (handleDelay env did d ord ag delay s))"
proof -
  have "noDisputedVerified (updateDelivery did
           (\<lambda>x. x\<lparr>delayMinutes := Some delay, delayNotified := True, humanIntervention := True\<rparr>) s)"
    by (rule ndv_updateDelivery_pres[OF assms]) (simp add: consistentDispute_def)
  then show ?thesis using assms
    unfolding noDisputedVerified_def handleDelay_deliveries by (simp add: updateDelivery_def)
qed

lemma ndv_initiateReassignment:
  assumes "noDisputedVerified s"
  shows "noDisputedVerified (snd (initiateReassignment env now did d s))"
proof -
  define s1 where "s1 = updateDelivery did
                 (\<lambda>x. x\<lparr>status := FAILED,
                         deliveryNotes := Some ''Reassigned due to excessive delay''\<rparr>) s"
  have n1: "noDisputedVerified s1" unfolding s1_def
    by (rule ndv_updateDelivery_pres[OF assms]) (simp add: consistentDispute_def)
  have n2: "\<And>m. noDisputedVerified (s1\<lparr>outbox := outbox s1 @ [m]\<rparr>)"
    using n1 by (simp add: ndv_outbox)
  show ?thesis
    using n1 n2
    by (auto simp: initiateReassignment_def Let_def s1_def[symmetric] sendMessage_def
          ndv_logInteraction split: option.splits prod.splits sum.splits
          dest: ndv_assignDeliveryAgent_pair)
qed

lemma ndv_updateLocation:
  assumes "noDisputedVerified s"
  shows "noDisputedVerified (snd (updateLocation env now did loc s))"
proof -
  have "\<And>eta. noDisputedVerified (updateDelivery did
           (\<lambda>x. x\<lparr>currentLocation := Some loc, lastLocationUpdate := Some now,
                   estimatedArrival := Some eta\<rparr>) s)"
    by (rule ndv_updateDelivery_pres[OF assms]) (simp add: consistentDispute_def)
  then show ?thesis using assms
    by (auto simp: updateLocation_def Let_def ndv_handleDelay split: option.splits)
qed

lemma ndv_stopMonitoring [simp]: "noDisputedVerified (stopMonitoring did s) = noDisputedVerified s"
  by (simp add: noDisputedVerified_def stopMonitoring_def)

lemma ndv_checkDeliveryProgress:
  assumes "noDisputedVerified s"
  shows "noDisputedVerified (checkDeliveryProgress env now did s)"
proof (cases "map_of (deliveries s) did")
  case None
  then show ?thesis using assms by (simp add: checkDeliveryProgress_def)
next
  case (Some d)
  define delay where "delay = calculateDelay (scheduledTime d)
                           (case estimatedArrival d of None \<Rightarrow> now | Some eta \<Rightarrow> eta)"
  define p where "p = (if 15 < delay
                       then handleDelay env did d (map_of (orders s) (orderId d))
                              (map_of (users s) (agentId d)) delay s
                       else (Inr (), s))"
  have n1: "noDisputedVerified (snd p)"
    using assms by (simp add: p_def ndv_handleDelay)
  have "checkDeliveryProgress env now did s = stopMonitoring did s
        \<or> checkDeliveryProgress env now did s = snd p
        \<or> checkDeliveryProgress env now did s = snd (initiateReassignment env now did d (snd p))"
    using Some
    by (auto simp: checkDeliveryProgress_def Let_def delay_def[symmetric] p_def[symmetric]
          split: prod.splits sum.splits)
  then show ?thesis using assms n1 ndv_initiateReassignment[OF n1] by auto
qed

lemma ndv_flagDiscrepancy:
  "noDisputedVerified (snd (flagDiscrepancy env did s)) = noDisputedVerified s"
  by (simp add: flagDiscrepancy_def sendMessage_def logInteraction_def noDisputedVerified_def)

lemma recordCashCollection_deliveries:
  "deliveries (snd (recordCashCollection env did amount s)) = deliveries s
   \<or> deliveries (snd (recordCashCollection env did amount s))
       = deliveries (updateDelivery did
           (\<lambda>x. x\<lparr>cashCollected := Some amount, status := DELIVERED_UNPAID\<rparr>) s)"
proof (cases "map_of (deliveries s) did")
  case None
  then show ?thesis by (simp add: recordCashCollection_def)
next
  case (Some d)
  show ?thesis
  proof (cases "map_of (orders s) (orderId d)")
    case None
    then show ?thesis using Some by (simp add: recordCashCollection_def)
  next
    case o: (Some ord)
    define p where "p = (if amount \<noteq> totalAmount ord then flagDiscrepancy env did s else (Inr (), s))"
    have dp: "deliveries (snd p) = deliveries s"
      by (simp add: p_def flagDiscrepancy_def sendMessage_def logInteraction_def)
    have e: "recordCashCollection env did amount s =
               (case p of (Inl e, s1) \<Rightarrow> (Inl e, s1)
                | (Inr x, s1) \<Rightarrow>
                    (Inr (),
                     logInteraction (''cash_collection'', did)
                       (updateUser (agentId d)
                          (\<lambda>u. u\<lparr>totalCollections := totalCollections u + amount\<rparr>)
                          (updateDelivery did
                             (\<lambda>x. x\<lparr>cashCollected := Some amount, status := DELIVERED_UNPAID\<rparr>)
                             s1))))"
      using Some o by (simp add: recordCashCollection_def p_def)
    show ?thesis
    proof (cases p)
      case (Pair r s1)
      then have "deliveries s1 = deliveries s" using dp by simp
      then show ?thesis unfolding e Pair
        by (cases r) (simp_all add: updateDelivery_def)
    qed
  qed
qed

lemma ndv_recordCashCollection:
  assumes "noDisputedVerified s"
  shows "noDisputedVerified (snd (recordCashCollection env did amount s))"
proof -
  have "noDisputedVerified (updateDelivery did
           (\<lambda>x. x\<lparr>cashCollected := Some amount, status := DELIVERED_UNPAID\<rparr>) s)"
    by (rule ndv_updateDelivery_pres[OF assms]) (simp add: consistentDispute_def)
  then show ?thesis
    using assms recordCashCollection_deliveries[of env did amount s]
    unfolding noDisputedVerified_def by auto
qed

lemma ndv_verifyRemittance:
  assumes n: "noDisputedVerified s"
    and st: "\<And>d. map_of (deliveries s) did = Some d \<Longrightarrow> status d \<noteq> PAYMENT_DISPUTED"
  shows "noDisputedVerified (snd (verifyRemittance env now did s))"
proof (cases "map_of (deliveries s) did")
  case None
  then show ?thesis using n by (simp add: verifyRemittance_def)
next
  case (Some d)
  show ?thesis
  proof (cases "map_of (users s) (agentId d)")
    case None
    then show ?thesis using n Some by (simp add: verifyRemittance_def)
  next
    case u: (Some agent)
    show ?thesis
    proof (cases "calculateFraudScore d agent")
      case (Inl e)
      then show ?thesis using n Some u by (simp add: verifyRemittance_def)
    next
      case (Inr sc)
      define f where "f = (\<lambda>x::Delivery. x\<lparr>fraudScore := Some sc,
                         fraudFlags := (if detectFraudPatterns d \<noteq> [] then Some (detectFraudPatterns d)
                                        else fraudFlags x),
                         remittanceVerified := js_lt sc 0.7\<rparr>)"
      define s1 where "s1 = updateDelivery did f s"
      have n1: "noDisputedVerified s1" unfolding s1_def
        by (rule ndv_updateDelivery[OF n]) (use st in \<open>simp add: consistentDispute_def f_def\<close>)
      have d1: "map_of (deliveries s1) did = Some (f d)"
        using Some by (simp add: s1_def deliveries_updateDelivery)
      have v: "verifyRemittance env now did s =
                 (if js_ge sc 0.7 then handleFraudSuspicion env now did d s1
                  else updateAgentRating (agentId d) agent s1)"
        unfolding verifyRemittance_unfold[OF Some u Inr] Let_def s1_def f_def ..
      show ?thesis
      proof (cases "js_ge sc 0.7")
        case False
        then show ?thesis unfolding v using n1
          by (simp add: ndv_cong[OF updateAgentRating_deliveries])
      next
        case True
        then have nv: "\<not> remittanceVerified (f d)"
          using js_ge_not_lt[of sc "0.7"] by (simp add: f_def)
        have "noDisputedVerified (updateDelivery did
                 (\<lambda>x. x\<lparr>status := PAYMENT_DISPUTED, restrictedUntil := Some (now + 7 * 24 * 60 * 60 * 1000)\<rparr>)
                 (updateUser (agentId d)
                    (\<lambda>u. u\<lparr>isRestricted := True, fraudIncidents := fraudIncidents u + 1\<rparr>) s1))"
          by (rule ndv_updateDelivery) (use n1 d1 nv in \<open>simp_all add: consistentDispute_def\<close>)
        then show ?thesis unfolding v handleFraudSuspicion_result Let_def using True
          by (simp add: noDisputedVerified_def)
      qed
    qed
  qed
qed

lemma ndv_recordCashRemittance:
  assumes n: "noDisputedVerified s"
  shows "noDisputedVerified (snd (recordCashRemittance env now did amount proofUrl s))"
proof (cases "map_of (deliveries s) did")
  case None
  then show ?thesis using n by (simp add: recordCashRemittance_def)
next
  case (Some d)
  define p where "p = (if Some amount \<noteq> cashCollected d then flagDiscrepancy env did s else (Inr (), s))"
  define s2 where "s2 = updateUser (agentId d)
                    (\<lambda>u. u\<lparr>totalRemittances := totalRemittances u + amount\<rparr>)
                    (updateDelivery did
                       (\<lambda>x. x\<lparr>cashRemitted := Some amount, remittanceTime := Some now,
                               remittanceProof := (case proofUrl of None \<Rightarrow> remittanceProof x
                                                   | Some url \<Rightarrow> Some url),
                               status := DELIVERED_PAID\<rparr>)
                       (snd p))"
  have dp: "deliveries (snd p) = deliveries s"
    by (simp add: p_def flagDiscrepancy_def sendMessage_def logInteraction_def)
  have np: "noDisputedVerified (snd p)"
    using n by (simp add: ndv_cong[OF dp])
  have n2: "noDisputedVerified s2" unfolding s2_def ndv_updateUser
    by (rule ndv_updateDelivery_pres[OF np]) (simp add: consistentDispute_def)
  have st: "\<And>x. map_of (deliveries s2) did = Some x \<Longrightarrow> status x \<noteq> PAYMENT_DISPUTED"
    using Some by (auto simp: s2_def deliveries_updateDelivery dp)
  have "snd (recordCashRemittance env now did amount proofUrl s) = snd p
        \<or> snd (recordCashRemittance env now did amount proofUrl s) = snd (verifyRemittance env now did s2)"
    using Some
    by (auto simp: recordCashRemittance_def p_def[symmetric] s2_def split: prod.splits sum.splits)
  then show ?thesis using np ndv_verifyRemittance[OF n2 st] by auto
qed

lemma ndv_append_ASSIGNED:
  "noDisputedVerified s \<Longrightarrow> status nd = ASSIGNED
   \<Longrightarrow> noDisputedVerified (s\<lparr>deliveries := deliveries s @ [(k, nd)]\<rparr>)"
  by (simp add: noDisputedVerified_def consistentDispute_def)

lemma ndv_processDelivery:
  assumes "noDisputedVerified s"
  shows "noDisputedVerified (snd (processDelivery env now oid s))"
proof -
  have "\<And>k aid t. noDisputedVerified (s\<lparr>deliveries := deliveries s @ [(k, newDelivery oid aid ASSIGNED t)]\<rparr>)"
    by (rule ndv_append_ASSIGNED[OF assms]) (simp add: newDelivery_def)
  then show ?thesis using assms
    by (auto simp: processDelivery_def Let_def sendMessage_def ndv_outbox
          split: option.splits sum.splits)
qed

lemma ndv_requestRedelivery:
  assumes "noDisputedVerified s"
  shows "noDisputedVerified (snd (requestRedelivery env now oid s))"
proof -
  have "\<And>k aid t n. noDisputedVerified (s\<lparr>deliveries := deliveries s
           @ [(k, (newDelivery oid aid ASSIGNED t)\<lparr>attemptCount := n\<rparr>)]\<rparr>)"
    by (rule ndv_append_ASSIGNED[OF assms]) (simp add: newDelivery_def)
  then show ?thesis using assms
    by (auto simp: requestRedelivery_def Let_def sendMessage_def ndv_outbox
          split: option.splits sum.splits)
qed

lemma ndv_startMonitoring:
  "noDisputedVerified s \<Longrightarrow> noDisputedVerified (snd (startMonitoring did s))"
  by (simp add: startMonitoring_def noDisputedVerified_def logInteraction_def split: option.splits)

lemma ndv_completeDelivery:
  assumes "noDisputedVerified s"
  shows "noDisputedVerified (snd (completeDelivery env now did cash s))"
proof -
  define s1 where "s1 = stopMonitoring did
                           (updateDelivery did
                              (\<lambda>x. x\<lparr>status := COMPLETED, completedTime := Some now\<rparr>) s)"
  have n1: "noDisputedVerified s1" unfolding s1_def ndv_stopMonitoring
    by (rule ndv_updateDelivery_pres[OF assms]) (simp add: consistentDispute_def)
  have n2: "\<And>a. noDisputedVerified (snd (recordCashCollection env did a s1))"
    by (rule ndv_recordCashCollection[OF n1])
  have n3: "\<And>k f. noDisputedVerified (updateOrder k f s1)" using n1 by simp
  show ?thesis
  proof (cases "map_of (deliveries s) did")
    case None
    then show ?thesis using assms by (simp add: completeDelivery_def)
  next
    case (Some d)
    show ?thesis
    proof (cases "map_of (orders s) (orderId d)")
      case None
      then show ?thesis using assms Some by (simp add: completeDelivery_def)
    next
      case o: (Some ord)
      define p where "p = (if paymentMethod ord = CASH_ON_DELIVERY \<and> num_or cash 0 \<noteq> 0
                         then recordCashCollection env did (num_or cash 0) s1
                         else (Inr (),
                               updateOrder (orderId d)
                                 (\<lambda>ord. ord\<lparr>orderStatus := DELIVERED, paymentStatus := PAYMENT_PAID\<rparr>)
                                 s1))"
      have np: "noDisputedVerified (snd p)" using n2 n3 by (simp add: p_def)
      have "deliveries (snd (completeDelivery env now did cash s)) = deliveries (snd p)"
        using Some o
        by (auto simp: completeDelivery_def Let_def s1_def[symmetric] p_def[symmetric]
              split: prod.splits sum.splits)
      then show ?thesis using np by (simp add: noDisputedVerified_def)
    qed
  qed
qed

lemma ndv_exec: "noDisputedVerified s \<Longrightarrow> noDisputedVerified (exec env now c s)"
  by (cases c)
     (simp_all add: ndv_assignDeliveryAgent ndv_handleUnconfirmedAssignment
        ndv_handleAgentConfirmation ndv_processDelivery ndv_requestRedelivery
        ndv_startMonitoring ndv_updateLocation ndv_checkDeliveryProgress
        ndv_completeDelivery ndv_recordCashCollection ndv_recordCashRemittance
        assignmentTimeout_def monitoringTick_def)

lemma ndv_run: "noDisputedVerified s \<Longrightarrow> noDisputedVerified (run evs s)"
  unfolding run_def by (induction evs arbitrary: s) (simp_all add: ndv_exec)

subsection \<open>A delivery that left \<open>ASSIGNED\<close> never returns to it\<close>

lemma na_cong: "deliveries s' = deliveries s \<Longrightarrow> notAssigned did s' = notAssigned did s"
  by (simp add: notAssigned_def)

lemma na_updateDelivery:
  assumes n: "notAssigned did s"
    and f: "\<And>d. status d \<noteq> ASSIGNED \<Longrightarrow> status (f d) \<noteq> ASSIGNED"
  shows "notAssigned did (updateDelivery k f s)"
proof -
  from n obtain d where d: "map_of (deliveries s) did = Some d" "status d \<noteq> ASSIGNED"
    by (auto simp: notAssigned_def split: option.splits)
  show ?thesis
  proof (cases "did = k")
    case True
    then show ?thesis using d f[OF d(2)]
      by (simp add: notAssigned_def deliveries_updateDelivery)
  next
    case False
    then show ?thesis using d
      by (simp add: notAssigned_def deliveries_updateDelivery)
  qed
qed

lemma na_append:
  "notAssigned did s \<Longrightarrow> notAssigned did (s\<lparr>deliveries := deliveries s @ xs\<rparr>)"
  by (auto simp: notAssigned_def map_add_def split: option.splits)

lemma na_keeps:
  "(\<And>d. map_of (deliveries s) did = Some d \<Longrightarrow> map_of (deliveries s') did = Some d)
   \<Longrightarrow> notAssigned did s \<Longrightarrow> notAssigned did s'"
  by (auto simp: notAssigned_def split: option.splits)

lemma na_assignDeliveryAgent:
  "notAssigned did s \<Longrightarrow> notAssigned did (snd (assignDeliveryAgent env now oid s))"
  using assignDeliveryAgent_keeps[of s did _ env now oid]
  by (auto simp: notAssigned_def split: option.splits)

lemma na_assignDeliveryAgent_pair:
  "assignDeliveryAgent env now oid s = (r, s') \<Longrightarrow> notAssigned did s \<Longrightarrow> notAssigned did s'"
  using na_assignDeliveryAgent[of did s env now oid] by simp

lemma na_simps [simp]:
  "notAssigned did (s\<lparr>outbox := x\<rparr>) = notAssigned did s"
  "notAssigned did (s\<lparr>interactions := y\<rparr>) = notAssigned did s"
  "notAssigned did (s\<lparr>assignmentTimers := t\<rparr>) = notAssigned did s"
  "notAssigned did (s\<lparr>monitoringIntervals := m\<rparr>) = notAssigned did s"
  "notAssigned did (updateUser k f s) = notAssigned did s"
  "notAssigned did (updateOrder k g s) = notAssigned did s"
  "notAssigned did (logInteraction i s) = notAssigned did s"
  "notAssigned did (stopMonitoring k s) = notAssigned did s"
  "notAssigned did (snd (sendMessage env msg s)) = notAssigned did s"
  by (simp_all add: notAssigned_def updateUser_def updateOrder_def logInteraction_def
        stopMonitoring_def sendMessage_def)

lemma na_handleUnconfirmedAssignment:
  assumes "notAssigned did s"
  shows "notAssigned did (snd (handleUnconfirmedAssignment env now k ord s))"
proof -
  define s1 where "s1 = updateDelivery k (\<lambda>d. d\<lparr>status := FAILED\<rparr>) s"
  have n1: "notAssigned did s1" unfolding s1_def
    by (rule na_updateDelivery[OF assms]) simp
  have n2: "\<And>m. notAssigned did (s1\<lparr>outbox := outbox s1 @ [m]\<rparr>)"
    using n1 by simp
  show ?thesis using assms n1 n2
    by (auto simp: handleUnconfirmedAssignment_def Let_def s1_def[symmetric] sendMessage_def
          split: option.splits prod.splits sum.splits dest: na_assignDeliveryAgent_pair)
qed

lemma na_handleAgentConfirmation:
  assumes "notAssigned did s"
  shows "notAssigned did (snd (handleAgentConfirmation env now k confirmed s))"
proof (cases confirmed)
  case False
  have "\<And>ord. notAssigned did (snd (handleUnconfirmedAssignment env now k ord s))"
    by (rule na_handleUnconfirmedAssignment[OF assms])
  then show ?thesis using False assms
    by (auto simp: handleAgentConfirmation_def split: option.splits prod.splits sum.splits)
       (metis snd_conv)+
next
  case True
  have "notAssigned did (updateDelivery k (\<lambda>d. d\<lparr>status := IN_PROGRESS\<rparr>) s)"
    by (rule na_updateDelivery[OF assms]) simp
  then show ?thesis using True assms
    by (auto simp: handleAgentConfirmation_def Let_def clearAssignmentTimer_def
          split: option.splits)
qed

lemma na_handleDelay:
  assumes "notAssigned did s"
  shows "notAssigned did (snd (handleDelay env k d ord ag delay s))"
proof -
  have "notAssigned did (updateDelivery k
           (\<lambda>x. x\<lparr>delayMinutes := Some delay, delayNotified := True, humanIntervention := True\<rparr>) s)"
    by (rule na_updateDelivery[OF assms]) simp
  then show ?thesis using assms
    unfolding notAssigned_def handleDelay_deliveries by (simp add: updateDelivery_def)
qed

lemma na_initiateReassignment:
  assumes "notAssigned did s"
  shows "notAssigned did (snd (initiateReassignment env now k d s))"
proof -
  define s1 where "s1 = updateDelivery k
                 (\<lambda>x. x\<lparr>status := FAILED,
                         deliveryNotes := Some ''Reassigned due to excessive delay''\<rparr>) s"
  have n1: "notAssigned did s1" unfolding s1_def
    by (rule na_updateDelivery[OF assms]) simp
  have n2: "\<And>m. notAssigned did (s1\<lparr>outbox := outbox s1 @ [m]\<rparr>)"
    using n1 by simp
  show ?thesis
    using n1 n2
    by (auto simp: initiateReassignment_def Let_def s1_def[symmetric] sendMessage_def
          split: option.splits prod.splits sum.splits
          dest: na_assignDeliveryAgent_pair)
qed

lemma na_updateLocation:
  assumes "notAssigned did s"
  shows "notAssigned did (snd (updateLocation env now k loc s))"
proof -
  have "\<And>eta. notAssigned did (updateDelivery k
           (\<lambda>x. x\<lparr>currentLocation := Some loc, lastLocationUpdate := Some now,
                   estimatedArrival := Some eta\<rparr>) s)"
    by (rule na_updateDelivery[OF assms]) simp
  then show ?thesis using assms
    by (auto simp: updateLocation_def Let_def na_handleDelay split: option.splits)
qed

lemma na_checkDeliveryProgress:
  assumes "notAssigned did s"
  shows "notAssigned did (checkDeliveryProgress env now k s)"
proof (cases "map_of (deliveries s) k")
  case None
  then show ?thesis using assms by (simp add: checkDeliveryProgress_def)
next
  case (Some d)
  define delay where "delay = calculateDelay (scheduledTime d)
                           (case estimatedArrival d of None \<Rightarrow> now | Some eta \<Rightarrow> eta)"
  define p where "p = (if 15 < delay
                       then handleDelay env k d (map_of (orders s) (orderId d))
                              (map_of (users s) (agentId d)) delay s
                       else (Inr (), s))"
  have n1: "notAssigned did (snd p)"
    using assms by (simp add: p_def na_handleDelay)
  have "checkDeliveryProgress env now k s = stopMonitoring k s
        \<or> checkDeliveryProgress env now k s = snd p
        \<or> checkDeliveryProgress env now k s = snd (initiateReassignment env now k d (snd p))"
    using Some
    by (auto simp: checkDeliveryProgress_def Let_def delay_def[symmetric] p_def[symmetric]
          split: prod.splits sum.splits)
  then show ?thesis using assms n1 na_initiateReassignment[OF n1] by auto
qed

lemma na_flagDiscrepancy:
  "notAssigned did (snd (flagDiscrepancy env k s)) = notAssigned did s"
  by (simp add: flagDiscrepancy_def sendMessage_def logInteraction_def notAssigned_def)

lemma na_recordCashCollection:
  assumes "notAssigned did s"
  shows "notAssigned did (snd (recordCashCollection env k amount s))"
proof -
  have "notAssigned did (updateDelivery k
           (\<lambda>x. x\<lparr>cashCollected := Some amount, status := DELIVERED_UNPAID\<rparr>) s)"
    by (rule na_updateDelivery[OF assms]) simp
  then show ?thesis
    using assms recordCashCollection_deliveries[of env k amount s]
    unfolding notAssigned_def by auto
qed

lemma na_verifyRemittance:
  assumes n: "notAssigned did s"
  shows "notAssigned did (snd (verifyRemittance env now k s))"
proof -
  have a: "\<And>f. (\<And>d. status (f d) = status d) \<Longrightarrow> notAssigned did (updateDelivery k f s)"
    by (rule na_updateDelivery[OF n]) simp
  have b: "\<And>s1 t. notAssigned did s1 \<Longrightarrow> notAssigned did (updateDelivery k
                 (\<lambda>x. x\<lparr>status := PAYMENT_DISPUTED, restrictedUntil := Some t\<rparr>) s1)"
    by (rule na_updateDelivery) simp_all
  show ?thesis using n
    by (auto simp: verifyRemittance_def Let_def handleFraudSuspicion_def updateAgentRating_def
          sendMessage_def a b split: option.splits sum.splits jsnum.splits)
qed

lemma na_recordCashRemittance:
  assumes n: "notAssigned did s"
  shows "notAssigned did (snd (recordCashRemittance env now k amount proofUrl s))"
proof -
  have a: "\<And>s1 u g c. notAssigned did s1 \<Longrightarrow> notAssigned did (snd (verifyRemittance env now k
            (updateUser u g (updateDelivery k
                       (\<lambda>x. x\<lparr>cashRemitted := c, remittanceTime := Some now,
                               remittanceProof := (case proofUrl of None \<Rightarrow> remittanceProof x
                                                   | Some url \<Rightarrow> Some url),
                               status := DELIVERED_PAID\<rparr>) s1))))"
    by (rule na_verifyRemittance) (simp add: na_updateDelivery)
  show ?thesis using n na_flagDiscrepancy[of did env k s]
    by (auto simp: recordCashRemittance_def a split: option.splits prod.splits sum.splits if_splits)
qed

lemma na_processDelivery:
  assumes "notAssigned did s"
  shows "notAssigned did (snd (processDelivery env now oid s))"
  using assms na_append[OF assms]
  by (auto simp: processDelivery_def Let_def sendMessage_def split: option.splits sum.splits)

lemma na_requestRedelivery:
  assumes "notAssigned did s"
  shows "notAssigned did (snd (requestRedelivery env now oid s))"
  using assms na_append[OF assms]
  by (auto simp: requestRedelivery_def Let_def sendMessage_def split: option.splits sum.splits)

lemma na_startMonitoring:
  "notAssigned did s \<Longrightarrow> notAssigned did (snd (startMonitoring k s))"
  by (simp add: startMonitoring_def split: option.splits)

lemma na_completeDelivery:
  assumes "notAssigned did s"
  shows "notAssigned did (snd (completeDelivery env now k cash s))"
proof -
  define s1 where "s1 = stopMonitoring k
                           (updateDelivery k
                              (\<lambda>x. x\<lparr>status := COMPLETED, completedTime := Some now\<rparr>) s)"
  have n1: "notAssigned did s1" unfolding s1_def na_simps
    by (rule na_updateDelivery[OF assms]) simp
  have n2: "\<And>a. notAssigned did (snd (recordCashCollection env k a s1))"
    by (rule na_recordCashCollection[OF n1])
  show ?thesis using assms n1
    by (auto simp: completeDelivery_def Let_def s1_def[symmetric] n2 sendMessage_def
          split: option.splits prod.splits sum.splits if_splits)
       (metis n2 snd_conv na_simps(1))+
qed

lemma na_exec: "notAssigned did s \<Longrightarrow> notAssigned did (exec env now c s)"
  by (cases c)
     (simp_all add: na_assignDeliveryAgent na_handleUnconfirmedAssignment
        na_handleAgentConfirmation na_processDelivery na_requestRedelivery
        na_startMonitoring na_updateLocation na_checkDeliveryProgress
        na_completeDelivery na_recordCashCollection na_recordCashRemittance
        assignmentTimeout_def monitoringTick_def)

lemma na_run: "notAssigned did s \<Longrightarrow> notAssigned did (run evs s)"
  unfolding run_def by (induction evs arbitrary: s) (simp_all add: na_exec)

subsection \<open>No call arms a confirmation timer\<close>

text \<open>
  The one place that arms a confirmation timer, in \<open>attemptAssignment\<close>, comes after
  the call of \<open>notifyAgent\<close> and is never reached: the set of armed timers never grows.
\<close>

lemma timers_simps [simp]:
  "assignmentTimers (snd (sendMessage env m s)) = assignmentTimers s"
  "assignmentTimers (logInteraction i s) = assignmentTimers s"
  "assignmentTimers (updateOrder k f s) = assignmentTimers s"
  "assignmentTimers (stopMonitoring k s) = assignmentTimers s"
  "assignmentTimers (snd (flagDiscrepancy env k s)) = assignmentTimers s"
  by (simp_all add: sendMessage_def logInteraction_def updateOrder_def stopMonitoring_def
        flagDiscrepancy_def)

lemma handleUnconfirmedAssignment_timers:
  "assignmentTimers (snd (handleUnconfirmedAssignment env now did ord s)) = assignmentTimers s"
proof (cases "map_of (deliveries s) did")
  case None
  then show ?thesis by (simp add: handleUnconfirmedAssignment_def)
next
  case (Some cur)
  define s1 where "s1 = updateDelivery did (\<lambda>d. d\<lparr>status := FAILED\<rparr>) s"
  have t1: "assignmentTimers s1 = assignmentTimers s" by (simp add: s1_def)
  show ?thesis
  proof (cases "status cur = ASSIGNED")
    case False
    then show ?thesis using Some by (simp add: handleUnconfirmedAssignment_def)
  next
    case True
    show ?thesis
    proof (cases "map_of (users s1) (agentId cur)")
      case None
      then show ?thesis using Some True t1
        by (simp add: handleUnconfirmedAssignment_def s1_def[symmetric])
    next
      case u: (Some u)
      show ?thesis
      proof (cases ord)
        case None
        then show ?thesis using Some True u t1
          by (simp add: handleUnconfirmedAssignment_def s1_def[symmetric])
      next
        case o: (Some order)
        define m where "m = (agentPlatform u, ToAgent (agentId cur), AssignmentCancelled)"
        show ?thesis
        proof (cases "env m")
          case False
          then show ?thesis using Some True u o t1
            by (simp add: handleUnconfirmedAssignment_def s1_def[symmetric] m_def[symmetric]
                  sendMessage_def)
        next
          case e: True
          have "snd (handleUnconfirmedAssignment env now did ord s)
                  = snd (assignDeliveryAgent env now (orderId cur) (s1\<lparr>outbox := outbox s1 @ [m]\<rparr>))"
            using Some True u o e
            by (simp add: handleUnconfirmedAssignment_def s1_def[symmetric] m_def[symmetric]
                  sendMessage_def split: prod.splits sum.splits)
          then show ?thesis using t1 by (simp add: assignDeliveryAgent_frame)
        qed
      qed
    qed
  qed
qed

lemma handleAgentConfirmation_timers:
  "assignmentTimers (snd (handleAgentConfirmation env now did c s)) \<subseteq> assignmentTimers s"
proof (cases "map_of (deliveries s) did")
  case None
  then show ?thesis by (simp add: handleAgentConfirmation_def)
next
  case (Some d)
  show ?thesis
  proof (cases c)
    case True
    then show ?thesis using Some
      by (auto simp: handleAgentConfirmation_def Let_def clearAssignmentTimer_def split: option.splits)
  next
    case False
    have "snd (handleAgentConfirmation env now did c s)
            = snd (handleUnconfirmedAssignment env now did (map_of (orders s) (orderId d)) s)"
      using Some False by (simp add: handleAgentConfirmation_def split: prod.splits sum.splits)
    then show ?thesis by (simp add: handleUnconfirmedAssignment_timers)
  qed
qed

lemma processDelivery_timers:
  "assignmentTimers (snd (processDelivery env now oid s)) = assignmentTimers s"
  by (simp add: processDelivery_def Let_def sendMessage_def split: option.splits sum.splits)

lemma requestRedelivery_timers:
  "assignmentTimers (snd (requestRedelivery env now oid s)) = assignmentTimers s"
  by (simp add: requestRedelivery_def Let_def sendMessage_def split: option.splits sum.splits)

lemma startMonitoring_timers:
  "assignmentTimers (snd (startMonitoring did s)) = assignmentTimers s"
  by (simp add: startMonitoring_def split: option.splits)

lemma updateLocation_timers:
  "assignmentTimers (snd (updateLocation env now did loc s)) = assignmentTimers s"
  by (simp add: updateLocation_def Let_def handleDelay_frame split: option.splits)

lemma initiateReassignment_timers:
  "assignmentTimers (snd (initiateReassignment env now did d s)) = assignmentTimers s"
proof -
  define s1 where "s1 = updateDelivery did
                 (\<lambda>x. x\<lparr>status := FAILED,
                         deliveryNotes := Some ''Reassigned due to excessive delay''\<rparr>) s"
  have t1: "assignmentTimers s1 = assignmentTimers s" by (simp add: s1_def)
  show ?thesis
  proof (cases "map_of (users s1) (agentId d)")
    case None
    then show ?thesis using t1 by (simp add: initiateReassignment_def Let_def s1_def[symmetric])
  next
    case (Some agent)
    define m where "m = (agentPlatform agent, ToAgent (agentId d), ReassignedNotice)"
    show ?thesis
    proof (cases "env m")
      case False
      then show ?thesis using Some t1
        by (simp add: initiateReassignment_def Let_def s1_def[symmetric] m_def[symmetric]
              sendMessage_def)
    next
      case True
      obtain r s3 where p: "assignDeliveryAgent env now (orderId d) (s1\<lparr>outbox := outbox s1 @ [m]\<rparr>) = (r, s3)"
        by (cases "assignDeliveryAgent env now (orderId d) (s1\<lparr>outbox := outbox s1 @ [m]\<rparr>)")
      have t3: "assignmentTimers s3 = assignmentTimers s"
        using assignDeliveryAgent_frame(3)[of env now "orderId d" "s1\<lparr>outbox := outbox s1 @ [m]\<rparr>"] t1
        unfolding p by simp
      show ?thesis using Some True p t3
        by (cases r)
           (simp_all add: initiateReassignment_def Let_def s1_def[symmetric] m_def[symmetric]
              sendMessage_def)
    qed
  qed
qed

lemma checkDeliveryProgress_timers:
  "assignmentTimers (checkDeliveryProgress env now did s) = assignmentTimers s"
proof (cases "map_of (deliveries s) did")
  case None
  then show ?thesis by (simp add: checkDeliveryProgress_def)
next
  case (Some d)
  define delay where "delay = calculateDelay (scheduledTime d)
                           (case estimatedArrival d of None \<Rightarrow> now | Some eta \<Rightarrow> eta)"
  define p where "p = (if 15 < delay
                       then handleDelay env did d (map_of (orders s) (orderId d))
                              (map_of (users s) (agentId d)) delay s
                       else (Inr (), s))"
  have n1: "assignmentTimers (snd p) = assignmentTimers s"
    by (simp add: p_def handleDelay_frame)
  have "checkDeliveryProgress env now did s = stopMonitoring did s
        \<or> checkDeliveryProgress env now did s = snd p
        \<or> checkDeliveryProgress env now did s = snd (initiateReassignment env now did d (snd p))"
    using Some
    by (auto simp: checkDeliveryProgress_def Let_def delay_def[symmetric] p_def[symmetric]
          split: prod.splits sum.splits)
  then show ?thesis using n1 initiateReassignment_timers[of env now did d "snd p"] by auto
qed

lemma recordCashCollection_timers:
  "assignmentTimers (snd (recordCashCollection env did amount s)) = assignmentTimers s"
proof (cases "map_of (deliveries s) did")
  case None
  then show ?thesis by (simp add: recordCashCollection_def)
next
  case (Some d)
  show ?thesis
  proof (cases "map_of (orders s) (orderId d)")
    case None
    then show ?thesis using Some by (simp add: recordCashCollection_def)
  next
    case o: (Some ord)
    define p where "p = (if amount \<noteq> totalAmount ord then flagDiscrepancy env did s else (Inr (), s))"
    have tp: "assignmentTimers (snd p) = assignmentTimers s" by (simp add: p_def)
    show ?thesis
    proof (cases p)
      case (Pair r s1)
      then have "assignmentTimers s1 = assignmentTimers s" using tp by simp
      then show ?thesis using Some o Pair
        by (cases r) (simp_all add: recordCashCollection_def p_def[symmetric])
    qed
  qed
qed

lemma verifyRemittance_timers:
  "assignmentTimers (snd (verifyRemittance env now did s)) = assignmentTimers s"
  by (simp add: verifyRemittance_def Let_def handleFraudSuspicion_def updateAgentRating_def
        sendMessage_def split: option.splits sum.splits jsnum.splits)

lemma recordCashRemittance_timers:
  "assignmentTimers (snd (recordCashRemittance env now did amount proofUrl s)) = assignmentTimers s"
proof (cases "map_of (deliveries s) did")
  case None
  then show ?thesis by (simp add: recordCashRemittance_def)
next
  case (Some d)
  define p where "p = (if Some amount \<noteq> cashCollected d then flagDiscrepancy env did s else (Inr (), s))"
  have tp: "assignmentTimers (snd p) = assignmentTimers s" by (simp add: p_def)
  show ?thesis
  proof (cases p)
    case (Pair r s1)
    then have "assignmentTimers s1 = assignmentTimers s" using tp by simp
    then show ?thesis using Some Pair
      by (cases r) (simp_all add: recordCashRemittance_def p_def[symmetric] verifyRemittance_timers)
  qed
qed

lemma completeDelivery_timers:
  "assignmentTimers (snd (completeDelivery env now did cash s)) = assignmentTimers s"
proof (cases "map_of (deliveries s) did")
  case None
  then show ?thesis by (simp add: completeDelivery_def)
next
  case (Some d)
  show ?thesis
  proof (cases "map_of (orders s) (orderId d)")
    case None
    then show ?thesis using Some by (simp add: completeDelivery_def)
  next
    case o: (Some ord)
    define s1 where "s1 = stopMonitoring did
                           (updateDelivery did
                              (\<lambda>x. x\<lparr>status := COMPLETED, completedTime := Some now\<rparr>) s)"
    define p where "p = (if paymentMethod ord = CASH_ON_DELIVERY \<and> num_or cash 0 \<noteq> 0
                         then recordCashCollection env did (num_or cash 0) s1
                         else (Inr (),
                               updateOrder (orderId d)
                                 (\<lambda>ord. ord\<lparr>orderStatus := DELIVERED, paymentStatus := PAYMENT_PAID\<rparr>)
                                 s1))"
    have tp: "assignmentTimers (snd p) = assignmentTimers s"
      by (simp add: p_def recordCashCollection_timers s1_def)
    show ?thesis
    proof (cases p)
      case (Pair r s2)
      then have "assignmentTimers s2 = assignmentTimers s" using tp by simp
      then show ?thesis using Some o Pair
        by (cases r) (simp_all add: completeDelivery_def Let_def s1_def[symmetric] p_def[symmetric])
    qed
  qed
qed

lemma exec_timers: "assignmentTimers (exec env now c s) \<subseteq> assignmentTimers s"
  by (cases c)
     (simp_all add: assignDeliveryAgent_frame handleUnconfirmedAssignment_timers
        handleAgentConfirmation_timers processDelivery_timers requestRedelivery_timers
        startMonitoring_timers updateLocation_timers checkDeliveryProgress_timers
        completeDelivery_timers recordCashCollection_timers recordCashRemittance_timers
        assignmentTimeout_def monitoringTick_def)

lemma run_timers: "assignmentTimers (run evs s) \<subseteq> assignmentTimers s"
  unfolding run_def
proof (induction evs arbitrary: s)
  case Nil
  show ?case by simp
next
  case (Cons ev evs)
  have "assignmentTimers (fold (\<lambda>ev. exec (fst ev) (fst (snd ev)) (snd (snd ev))) evs
          (exec (fst ev) (fst (snd ev)) (snd (snd ev)) s))
        \<subseteq> assignmentTimers (exec (fst ev) (fst (snd ev)) (snd (snd ev)) s)"
    by (rule Cons.IH)
  also have "\<dots> \<subseteq> assignmentTimers s" by (rule exec_timers)
  finally show ?case by simp
qed

section \<open>Confirmation and the confirmation timer: the timeout never escalates\<close>

text \<open>
  C7. After \<open>handleAgentConfirmation(id, true)\<close> on a delivery the confirmation timer of
  the delivery is no longer in the timer map, so it does not fire; and the timer callback
  itself (\<open>handleUnconfirmedAssignment\<close>, on the record of either of its callers), run
  on the state after the confirmation (a callback that raced with the confirmation),
  reads the status \<open>IN_PROGRESS\<close> and changes nothing. The same holds
  after every history of further calls: the delivery never returns to \<open>ASSIGNED\<close>, so
  neither the timer nor its callback ever escalates it.
\<close>

theorem confirmation_cancels_timeout:
  fixes env env' :: Env and now now' :: time
  assumes d: "map_of (deliveries s) did = Some d"
    and ord: "map_of (orders s) (orderId d) = Some ord"
  defines "s' \<equiv> snd (handleAgentConfirmation env now did True s)"
  shows "did \<notin> assignmentTimers s'
    \<and> map_of (deliveries s') did = Some (d\<lparr>status := IN_PROGRESS\<rparr>)
    \<and> assignmentTimeout env' now' did s' = (Inr (), s')
    \<and> handleUnconfirmedAssignment env' now' did ord' s' = (Inr (), s')
    \<and> (\<forall>evs. assignmentTimeout env' now' did (run evs s') = (Inr (), run evs s')
              \<and> handleUnconfirmedAssignment env' now' did ord' (run evs s') = (Inr (), run evs s'))"
proof -
  have t: "did \<notin> assignmentTimers s'"
    unfolding s'_def handleAgentConfirmation_True(1)[OF d ord] by simp
  have p: "map_of (deliveries s') did = Some (d\<lparr>status := IN_PROGRESS\<rparr>)"
    unfolding s'_def by (rule handleAgentConfirmation_True(2)[OF d ord])
  have h: "handleUnconfirmedAssignment env' now' did ord' s' = (Inr (), s')"
    by (rule handleUnconfirmedAssignment_not_ASSIGNED[OF p]) simp
  have a: "assignmentTimeout env' now' did s' = (Inr (), s')"
    using t by (simp add: assignmentTimeout_def)
  have n: "notAssigned did s'" using p by (simp add: notAssigned_def)
  have later: "assignmentTimeout env' now' did (run evs s') = (Inr (), run evs s')
              \<and> handleUnconfirmedAssignment env' now' did ord' (run evs s') = (Inr (), run evs s')" for evs
  proof -
    from na_run[OF n, of evs] obtain x where
      x: "map_of (deliveries (run evs s')) did = Some x" "status x \<noteq> ASSIGNED"
      by (auto simp: notAssigned_def split: option.splits)
    have "\<And>o'. handleUnconfirmedAssignment env' now' did o' (run evs s') = (Inr (), run evs s')"
      by (rule handleUnconfirmedAssignment_not_ASSIGNED[OF x])
    then show ?thesis by (simp add: assignmentTimeout_def)
  qed
  from t p h a later show ?thesis by blast
qed

theorem confirmation_cancels_timeout_witness:
  "map_of (deliveries timeoutState) 3 = Some (newDelivery 1 1 ASSIGNED (30 * 60 * 1000))
   \<and> 3 \<in> assignmentTimers timeoutState
   \<and> 3 \<notin> assignmentTimers (snd (handleAgentConfirmation (\<lambda>m. True) (5 * 60 * 1000) 3 True timeoutState))
   \<and> assignmentTimeout (\<lambda>m. True) (15 * 60 * 1000) 3
        (snd (handleAgentConfirmation (\<lambda>m. True) (5 * 60 * 1000) 3 True timeoutState))
      = (Inr (), snd (handleAgentConfirmation (\<lambda>m. True) (5 * 60 * 1000) 3 True timeoutState))"
proof -
  have h1: "map_of (deliveries timeoutState) 3 = Some (newDelivery 1 1 ASSIGNED (30 * 60 * 1000))"
    by (simp add: timeoutState_def twoAgentsState_def)
  have h2: "map_of (orders timeoutState) (orderId (newDelivery 1 1 ASSIGNED (30 * 60 * 1000)))
              = Some (exampleOrder\<lparr>orderStatus := CONFIRMED\<rparr>)"
    by (simp add: timeoutState_def twoAgentsState_def newDelivery_def)
  have h3: "3 \<in> assignmentTimers timeoutState"
    by (simp add: timeoutState_def)
  from confirmation_cancels_timeout[OF h1 h2, where env = "\<lambda>m. True" and now = "5 * 60 * 1000"
      and env' = "\<lambda>m. True" and now' = "15 * 60 * 1000"] h1 h3
  show ?thesis by simp
qed

section \<open>Verification and the dispute status\<close>

lemma verifyRemittance_overlapped_id:
  "verifyRemittance_overlapped env now did (\<lambda>s. s) s = verifyRemittance env now did s"
  by (simp add: verifyRemittance_overlapped_def verifyRemittance_def Let_def
        split: option.splits sum.splits)

lemma verifyRemittance_not_found:
  "map_of (deliveries s) did = None \<Longrightarrow> verifyRemittance env now did s = (Inl DeliveryNotFound, s)"
  by (simp add: verifyRemittance_def)

text \<open>
  C10, as stated, fails. In \<open>shortRemittanceState\<close> no delivery is both
  \<open>PAYMENT_DISPUTED\<close> and verified. A verification run on delivery 0 computes the score
  0.73 and writes \<open>remittanceVerified = false\<close>; while that update is awaited, a second
  remittance request for the same delivery records the full amount and its own
  verification run computes 0.43 and writes \<open>remittanceVerified = true\<close>; the first run
  then goes on with the fraud path and sets the status \<open>PAYMENT_DISPUTED\<close>. The delivery
  ends \<open>PAYMENT_DISPUTED\<close> and verified.
\<close>

theorem overlapping_remittance_disputed_and_verified:
  "noDisputedVerified shortRemittanceState
   \<and> fst (verifyRemittance_overlapped (\<lambda>m. True) (3 * 24 * 60 * 60 * 1000) 0 secondRemittance
            shortRemittanceState) = Inr ()
   \<and> map_option (\<lambda>d. (fraudScore d, status d, remittanceVerified d))
        (map_of (deliveries (snd (verifyRemittance_overlapped (\<lambda>m. True) (3 * 24 * 60 * 60 * 1000) 0
            secondRemittance shortRemittanceState))) 0)
       = Some (Some (Num 0.43), PAYMENT_DISPUTED, True)
   \<and> \<not> noDisputedVerified (snd (verifyRemittance_overlapped (\<lambda>m. True) (3 * 24 * 60 * 60 * 1000) 0
            secondRemittance shortRemittanceState))"
  by (simp add: verifyRemittance_overlapped_def secondRemittance_def recordCashRemittance_def
      verifyRemittance_def shortRemittanceState_def newDelivery_def exampleAgent_def
      calculateFraudScore_def remittanceDelay_def amountDiscrepancy_def num_or_def js_sub_def
      FRAUD_SCORE_THRESHOLD_def handleFraudSuspicion_def updateAgentRating_def js_div_def
      sendMessage_def logInteraction_def updateDelivery_def updateUser_def detectFraudPatterns_def
      noDisputedVerified_def consistentDispute_def Let_def)

text \<open>
  C10, amended. A verification run that computes a fraud score writes \<open>fraudScore\<close>,
  \<open>fraudFlags\<close> and \<open>remittanceVerified = (fraudScore < 0.7)\<close> in one update of the
  delivery, and then takes the fraud path exactly when the score is at least 0.7; a run
  that does not find the delivery, or whose score computation ends in an error, throws
  and writes nothing. After a run that no other call overlaps, the delivery has that
  score and that flag; on the fraud path it is \<open>PAYMENT_DISPUTED\<close> and not verified; a
  delivery that was not \<open>PAYMENT_DISPUTED\<close> before the run is not both
  \<open>PAYMENT_DISPUTED\<close> and verified after it; no other delivery changes. From a state in
  which no delivery is both \<open>PAYMENT_DISPUTED\<close> and verified, no history of calls that
  run one after another reaches a state with such a delivery.
\<close>

theorem verification_writes_verified:
  fixes env :: Env and now :: time and did :: ident and s :: State
  defines "r \<equiv> verifyRemittance env now did s"
  shows "(case map_of (deliveries s) did of
            None \<Rightarrow> r = (Inl DeliveryNotFound, s)
          | Some d \<Rightarrow>
              (case map_of (users s) (agentId d) of
                 None \<Rightarrow> r = (Inl RecordNotFound, s)
               | Some agent \<Rightarrow>
                   (case calculateFraudScore d agent of
                      Inl e \<Rightarrow> r = (Inl e, s)
                    | Inr sc \<Rightarrow>
                        r = (let s1 = updateDelivery did
                                        (\<lambda>x. x\<lparr>fraudScore := Some sc,
                                                fraudFlags := (if detectFraudPatterns d \<noteq> []
                                                               then Some (detectFraudPatterns d)
                                                               else fraudFlags x),
                                                remittanceVerified := js_lt sc 0.7\<rparr>) s
                             in if js_ge sc 0.7 then handleFraudSuspicion env now did d s1
                                else updateAgentRating (agentId d) agent s1)
                        \<and> (\<exists>d'. map_of (deliveries (snd r)) did = Some d'
                              \<and> fraudScore d' = Some sc \<and> remittanceVerified d' = js_lt sc 0.7
                              \<and> fraudFlags d' = (if detectFraudPatterns d \<noteq> []
                                                 then Some (detectFraudPatterns d) else fraudFlags d)
                              \<and> status d' = (if js_ge sc 0.7 then PAYMENT_DISPUTED else status d)
                              \<and> (js_ge sc 0.7 \<longrightarrow> \<not> remittanceVerified d')
                              \<and> (status d \<noteq> PAYMENT_DISPUTED \<longrightarrow> consistentDispute d')))))
    \<and> (\<forall>k. k \<noteq> did \<longrightarrow> map_of (deliveries (snd r)) k = map_of (deliveries s) k)
    \<and> (\<forall>s0 evs. noDisputedVerified s0 \<longrightarrow> noDisputedVerified (run evs s0))"
proof -
  have h: "\<forall>s0 evs. noDisputedVerified s0 \<longrightarrow> noDisputedVerified (run evs s0)"
    by (simp add: ndv_run)
  show ?thesis
  proof (cases "map_of (deliveries s) did")
    case None
    then show ?thesis using h by (simp add: r_def verifyRemittance_def)
  next
    case d: (Some d)
    show ?thesis
    proof (cases "map_of (users s) (agentId d)")
      case None
      then show ?thesis using d h by (simp add: r_def verifyRemittance_def)
    next
      case u: (Some agent)
      show ?thesis
      proof (cases "calculateFraudScore d agent")
        case (Inl e)
        then show ?thesis using d u h by (simp add: r_def verifyRemittance_def)
      next
        case sc: (Inr sc)
        define s1 where "s1 = updateDelivery did
                 (\<lambda>x. x\<lparr>fraudScore := Some sc,
                         fraudFlags := (if detectFraudPatterns d \<noteq> [] then Some (detectFraudPatterns d)
                                        else fraudFlags x),
                         remittanceVerified := js_lt sc 0.7\<rparr>) s"
        have r: "r = (if js_ge sc 0.7 then handleFraudSuspicion env now did d s1
                      else updateAgentRating (agentId d) agent s1)"
          unfolding r_def s1_def verifyRemittance_unfold[OF d u sc] Let_def ..
        have nl: "js_ge sc 0.7 \<Longrightarrow> \<not> js_lt sc 0.7" by (rule js_ge_not_lt)
        have d1: "map_of (deliveries s1) did = Some (d\<lparr>fraudScore := Some sc,
                           fraudFlags := (if detectFraudPatterns d \<noteq> [] then Some (detectFraudPatterns d)
                                          else fraudFlags d),
                           remittanceVerified := js_lt sc 0.7\<rparr>)"
          using d by (simp add: s1_def deliveries_updateDelivery)
        have o1: "\<And>k. k \<noteq> did \<Longrightarrow> map_of (deliveries s1) k = map_of (deliveries s) k"
          by (simp add: s1_def deliveries_updateDelivery)
        have main: "(\<exists>d'. map_of (deliveries (snd r)) did = Some d'
                              \<and> fraudScore d' = Some sc \<and> remittanceVerified d' = js_lt sc 0.7
                              \<and> fraudFlags d' = (if detectFraudPatterns d \<noteq> []
                                                 then Some (detectFraudPatterns d) else fraudFlags d)
                              \<and> status d' = (if js_ge sc 0.7 then PAYMENT_DISPUTED else status d)
                              \<and> (js_ge sc 0.7 \<longrightarrow> \<not> remittanceVerified d')
                              \<and> (status d \<noteq> PAYMENT_DISPUTED \<longrightarrow> consistentDispute d'))
                    \<and> (\<forall>k. k \<noteq> did \<longrightarrow> map_of (deliveries (snd r)) k = map_of (deliveries s) k)"
        proof (cases "js_ge sc 0.7")
          case True
          then show ?thesis unfolding r handleFraudSuspicion_result Let_def
            using d1 o1 nl
            by (simp add: deliveries_updateDelivery consistentDispute_def)
        next
          case False
          then show ?thesis unfolding r
            using d1 o1
            by (simp add: updateAgentRating_deliveries consistentDispute_def)
        qed
        have r': "r = (let s1 = updateDelivery did
                                        (\<lambda>x. x\<lparr>fraudScore := Some sc,
                                                fraudFlags := (if detectFraudPatterns d \<noteq> []
                                                               then Some (detectFraudPatterns d)
                                                               else fraudFlags x),
                                                remittanceVerified := js_lt sc 0.7\<rparr>) s
                             in if js_ge sc 0.7 then handleFraudSuspicion env now did d s1
                                else updateAgentRating (agentId d) agent s1)"
          unfolding Let_def r s1_def ..
        show ?thesis unfolding d u sc option.case sum.case using r' main h by blast
      qed
    qed
  qed
qed

theorem verification_writes_verified_witness:
  "map_of (users shortRemittanceState) 1
     = Some (exampleAgent\<lparr>remittanceRating := Num 0.5, fraudIncidents := 2\<rparr>)
   \<and> (\<exists>d'. map_of (deliveries (snd (verifyRemittance (\<lambda>m. True) (3 * 24 * 60 * 60 * 1000) 0
                 shortRemittanceState))) 0 = Some d'
         \<and> fraudScore d' = Some (Num 0.73) \<and> \<not> remittanceVerified d'
         \<and> status d' = PAYMENT_DISPUTED)
   \<and> calculateFraudScore remittedNotCompleted exampleAgent = Inl TypeError
   \<and> verifyRemittance (\<lambda>m. True) 3600000 0 notCompletedState = (Inl TypeError, notCompletedState)"
proof -
  define d where "d = (newDelivery 1 1 DELIVERED_PAID 0)
        \<lparr>completedTime := Some 0, cashCollected := Some 100, cashRemitted := Some 0,
         remittanceTime := Some (3 * 24 * 60 * 60 * 1000)\<rparr>"
  define agent where "agent = exampleAgent\<lparr>remittanceRating := Num 0.5, fraudIncidents := 2\<rparr>"
  have ag: "agentId d = 1" by (simp add: d_def newDelivery_def)
  have h1: "map_of (deliveries shortRemittanceState) 0 = Some d"
    by (simp add: shortRemittanceState_def d_def)
  have h2: "map_of (users shortRemittanceState) (agentId d) = Some agent"
    by (simp add: shortRemittanceState_def ag agent_def)
  have h3: "calculateFraudScore d agent = Inr (Num 0.73)"
    unfolding d_def agent_def by (rule shortRemittance_score)
  from verification_writes_verified[where env = "\<lambda>m. True" and now = "3 * 24 * 60 * 60 * 1000"
      and did = 0 and s = shortRemittanceState]
  obtain d' where "map_of (deliveries (snd (verifyRemittance (\<lambda>m. True) (3 * 24 * 60 * 60 * 1000) 0
                 shortRemittanceState))) 0 = Some d'"
    "fraudScore d' = Some (Num 0.73)" "remittanceVerified d' = js_lt (Num 0.73) 0.7"
    "status d' = (if js_ge (Num 0.73) 0.7 then PAYMENT_DISPUTED else status d)"
    unfolding h1 option.case h2 h3 sum.case by blast
  then have a: "\<exists>d'. map_of (deliveries (snd (verifyRemittance (\<lambda>m. True) (3 * 24 * 60 * 60 * 1000) 0
                 shortRemittanceState))) 0 = Some d'
         \<and> fraudScore d' = Some (Num 0.73) \<and> \<not> remittanceVerified d'
         \<and> status d' = PAYMENT_DISPUTED"
    by auto
  have g1: "map_of (deliveries notCompletedState) 0 = Some remittedNotCompleted"
    by (simp add: notCompletedState_def)
  have g2: "map_of (users notCompletedState) (agentId remittedNotCompleted) = Some exampleAgent"
    by (simp add: notCompletedState_def remittedNotCompleted_def newDelivery_def)
  have g3: "calculateFraudScore remittedNotCompleted exampleAgent = Inl TypeError"
    by (simp add: calculateFraudScore_def remittanceDelay_def remittedNotCompleted_def newDelivery_def)
  from verification_writes_verified[where env = "\<lambda>m. True" and now = 3600000
      and did = 0 and s = notCompletedState]
  have b: "verifyRemittance (\<lambda>m. True) 3600000 0 notCompletedState = (Inl TypeError, notCompletedState)"
    unfolding g1 option.case g2 g3 sum.case by blast
  from a b g3 h2 show ?thesis by (simp add: ag agent_def)
qed

end
